theory Spec2Isabelle
  imports Complex_Main "HOL-Library.Sublist"
begin

section \<open>JavaScript strings and numbers used by the trade-in pipeline\<close>

text \<open>
  A character of the model is a UTF-16 code unit below 256, that is ASCII and the Latin-1
  supplement, so that the length of a string is the \<open>length\<close> JavaScript reports;
  strings holding a code unit from 256 on are outside the model. \<open>toLowerCase\<close> maps
  \<open>A..Z\<close> to \<open>a..z\<close> and the capital letters of the Latin-1 supplement (192 to 222 but
  for the multiplication sign 215) to their small letters 32 places on, and leaves every
  other character alone; \<open>str_includes s t\<close> is \<open>s.includes(t)\<close>, the
  contiguous-substring test; a string is truthy iff it is not empty.
\<close>

definition toLowerCase_char :: "char \<Rightarrow> char" where
  "toLowerCase_char c =
     (let n = (of_char c :: nat)
      in if (65 \<le> n \<and> n \<le> 90) \<or> (192 \<le> n \<and> n \<le> 222 \<and> n \<noteq> 215)
         then char_of (n + 32) else c)"

definition toLowerCase :: "string \<Rightarrow> string" where
  "toLowerCase s = map toLowerCase_char s"

definition str_includes :: "string \<Rightarrow> string \<Rightarrow> bool" where
  "str_includes s t = sublist t s"

fun join :: "string \<Rightarrow> string list \<Rightarrow> string" where
  "join sep [] = []"
| "join sep [x] = x"
| "join sep (x # y # ys) = x @ sep @ join sep (y # ys)"

definition digit_char :: "nat \<Rightarrow> char" where
  "digit_char d = char_of (48 + d)"

fun show_nat :: "nat \<Rightarrow> string" where
  "show_nat n = (if n < 10 then [digit_char n] else show_nat (n div 10) @ [digit_char (n mod 10)])"

declare show_nat.simps [simp del]

text \<open>Reading a decimal numeral back, to say what \<open>show_nat\<close> prints.\<close>

definition read_nat :: "string \<Rightarrow> nat" where
  "read_nat s = foldl (\<lambda>a c. 10 * a + (of_char c - 48)) 0 s"

definition show_int :: "int \<Rightarrow> string" where
  "show_int i = (if i < 0 then CHR ''-'' # show_nat (nat (- i)) else show_nat (nat i))"

text \<open>\<open>Math.round\<close>: the nearest integer, a tie going up.\<close>

definition Math_round :: "rat \<Rightarrow> int" where
  "Math_round x = \<lfloor>x + 1 / 2\<rfloor>"

text \<open>
  A JavaScript number that is used as a gateway outcome code: an integer or \<open>NaN\<close>.
  A value of type \<open>jsnum option\<close> is \<open>number | null\<close>, \<open>None\<close> being \<open>null\<close>.
\<close>

datatype jsnum = Num int | NaN

fun truthy_code :: "jsnum option \<Rightarrow> bool" where
  "truthy_code None = False"
| "truthy_code (Some NaN) = False"
| "truthy_code (Some (Num n)) = (n \<noteq> 0)"

fun code_ge :: "jsnum option \<Rightarrow> int \<Rightarrow> bool" where
  "code_ge (Some (Num n)) k = (k \<le> n)"
| "code_ge _ k = False"

fun code_lt :: "jsnum option \<Rightarrow> int \<Rightarrow> bool" where
  "code_lt (Some (Num n)) k = (n < k)"
| "code_lt _ k = False"

section \<open>Checksum validator\<close>

text \<open>
  \<open>validateImeiFormat\<close> first removes every character matched by \<open>/[\s\-().]/g\<close>:
  white space, hyphen, parentheses and full stop. The white space of \<open>\s\<close> among the
  characters of the model is tab, line feed, vertical tab, form feed, carriage return,
  space and the no-break space (160).
\<close>

definition is_space :: "char \<Rightarrow> bool" where
  "is_space c =
     (c \<in> set [char_of (9::nat), char_of (10::nat), char_of (11::nat), char_of (12::nat),
                char_of (13::nat), CHR '' '', char_of (160::nat)])"

definition is_separator :: "char \<Rightarrow> bool" where
  "is_separator c = (is_space c \<or> c \<in> set [CHR ''-'', CHR ''('', CHR '')'', CHR ''.''])"

definition strip_separators :: "string \<Rightarrow> string" where
  "strip_separators s = filter (\<lambda>c. \<not> is_separator c) s"

definition is_digit :: "char \<Rightarrow> bool" where
  "is_digit c = (48 \<le> (of_char c :: nat) \<and> (of_char c :: nat) \<le> 57)"

text \<open>\<open>parseInt(imei[i], 10)\<close> on one character: its digit value, or \<open>NaN\<close> (here \<open>None\<close>).\<close>

definition parseInt_char :: "char \<Rightarrow> int option" where
  "parseInt_char c = (if is_digit c then Some (int (of_char c) - 48) else None)"

text \<open>
  The body of the \<open>for\<close> loop of \<open>luhnCheck\<close>: \<open>i\<close> is the index of the next character,
  \<open>sm\<close> the running \<open>sum\<close>, which is \<open>NaN\<close> for good once one character is not a digit.
\<close>

fun luhn_loop :: "nat \<Rightarrow> string \<Rightarrow> int option \<Rightarrow> int option" where
  "luhn_loop i [] sm = sm"
| "luhn_loop i (c # cs) sm =
     (let digit = parseInt_char c;
          digit = (if i mod 2 = 1
                   then map_option (\<lambda>d. let d = d * 2 in if d > 9 then d - 9 else d) digit
                   else digit);
          sm = (case (sm, digit) of (Some s, Some d) \<Rightarrow> Some (s + d) | _ \<Rightarrow> None)
      in luhn_loop (i + 1) cs sm)"

definition luhnCheck :: "string \<Rightarrow> bool" where
  "luhnCheck imei = (case luhn_loop 0 imei (Some 0) of Some s \<Rightarrow> s mod 10 = 0 | None \<Rightarrow> False)"

record imei_validation =
  valid :: bool
  cleanImei :: string
  luhnValid :: bool
  vmessage :: string

definition validateImeiFormat :: "string \<Rightarrow> imei_validation" where
  "validateImeiFormat imei =
     (let clean = strip_separators imei in
      if length clean \<noteq> 15 then
        \<lparr>valid = False, cleanImei = clean, luhnValid = False,
         vmessage = ''IMEI must be exactly 15 digits. Received '' @ show_nat (length clean)
                    @ '' digit'' @ (if length clean \<noteq> 1 then ''s'' else '''')
                    @ '': \"'' @ clean @ ''\"''\<rparr>
      else if \<not> (length clean = 15 \<and> list_all is_digit clean) then
        \<lparr>valid = False, cleanImei = clean, luhnValid = False,
         vmessage = ''IMEI must contain only digits. Received: \"'' @ clean @ ''\"''\<rparr>
      else if \<not> luhnCheck clean then
        \<lparr>valid = False, cleanImei = clean, luhnValid = False,
         vmessage = ''IMEI failed Luhn checksum verification. This is likely not a valid IMEI number.''\<rparr>
      else
        \<lparr>valid = True, cleanImei = clean, luhnValid = True,
         vmessage = ''IMEI is valid (15 digits, Luhn checksum passed).''\<rparr>)"

text \<open>
  The checksum as the specification words it: positions are counted from the left starting
  at 0; a digit at an odd position is doubled, and 9 is subtracted when the doubled value
  exceeds 9; the transformed digits are summed; the identifier is valid iff the sum is a
  multiple of 10.
\<close>

definition digit_value :: "char \<Rightarrow> int" where
  "digit_value c = int (of_char c) - 48"

definition spec_transform :: "nat \<Rightarrow> int \<Rightarrow> int" where
  "spec_transform i d = (if odd i then (if 2 * d > 9 then 2 * d - 9 else 2 * d) else d)"

definition spec_checksum :: "string \<Rightarrow> int" where
  "spec_checksum s = (\<Sum>i<length s. spec_transform i (digit_value (s ! i)))"

definition spec_checksum_valid :: "string \<Rightarrow> bool" where
  "spec_checksum_valid s = (spec_checksum s mod 10 = 0)"

section \<open>Trade-in catalog and its cache\<close>

text \<open>
  The catalog document (\<open>TradeInApiResponse\<close>). The \<open>questions\<close> of a category are
  never read by the trade-in code and are left out. Prices are JavaScript numbers and are
  taken as rationals.
\<close>

record TradeInDevice =
  dev_name :: string
  image :: string
  modelCode :: string
  modelPrice :: rat
  capacity :: string
  promotions :: "string list"

record TradeInModel =
  model_name :: string
  productFamily :: "TradeInDevice list"

record TradeInMake =
  make_name :: string
  models :: "TradeInModel list"

record TradeInCategory =
  category :: string
  makes :: "TradeInMake list"

record TradeInApiResponse =
  date :: string
  devices :: "TradeInCategory list"

text \<open>
  What one \<open>fetch\<close> does: the promise rejects (network unreachable), or a response with an
  HTTP status arrives whose body is JSON of the expected shape (\<open>Some\<close>) or is not
  JSON, so that \<open>response.json()\<close> rejects (\<open>None\<close>).
\<close>

datatype 'a fetch = Rejects string | Response nat "'a option"

definition response_ok :: "nat \<Rightarrow> bool" where
  "response_ok st = (200 \<le> st \<and> st \<le> 299)"

record cache_state =
  tradeInCache :: "TradeInApiResponse option"
  tradeInCacheTime :: int

definition initial_cache :: cache_state where
  "initial_cache = \<lparr>tradeInCache = None, tradeInCacheTime = 0\<rparr>"

definition TRADEIN_CACHE_TTL :: int where
  "TRADEIN_CACHE_TTL = 15 * 60 * 1000"

text \<open>
  \<open>fetchTradeInData\<close>: \<open>now\<close> is the reading of \<open>Date.now()\<close>, \<open>upstream\<close> what the
  catalog endpoint would answer; \<open>network_calls\<close> counts the requests issued.
\<close>

record fetch_result =
  returned :: "TradeInApiResponse option"
  network_calls :: nat
  cache_after :: cache_state

definition fetchTradeInData :: "int \<Rightarrow> TradeInApiResponse fetch \<Rightarrow> cache_state \<Rightarrow> fetch_result" where
  "fetchTradeInData now upstream st =
     (if tradeInCache st \<noteq> None \<and> now - tradeInCacheTime st < TRADEIN_CACHE_TTL then
        \<lparr>returned = tradeInCache st, network_calls = 0, cache_after = st\<rparr>
      else
        (case upstream of
           Rejects e \<Rightarrow> \<lparr>returned = tradeInCache st, network_calls = 1, cache_after = st\<rparr>
         | Response status body \<Rightarrow>
             if \<not> response_ok status then
               \<lparr>returned = tradeInCache st, network_calls = 1, cache_after = st\<rparr>
             else
               (case body of
                  None \<Rightarrow> \<lparr>returned = tradeInCache st, network_calls = 1, cache_after = st\<rparr>
                | Some data \<Rightarrow>
                    \<lparr>returned = Some data, network_calls = 1,
                     cache_after = \<lparr>tradeInCache = Some data, tradeInCacheTime = now\<rparr>\<rparr>)))"

text \<open>A run of calls, each with its clock reading and upstream answer; the requests are added up.\<close>

fun fetch_calls :: "(int \<times> TradeInApiResponse fetch) list \<Rightarrow> cache_state \<Rightarrow> nat \<times> cache_state" where
  "fetch_calls [] st = (0, st)"
| "fetch_calls ((now, upstream) # rest) st =
     (let r = fetchTradeInData now upstream st;
          (n, st') = fetch_calls rest (cache_after r)
      in (network_calls r + n, st'))"

definition fetch_fails :: "TradeInApiResponse fetch \<Rightarrow> bool" where
  "fetch_fails upstream =
     (case upstream of Rejects e \<Rightarrow> True
      | Response status body \<Rightarrow> \<not> response_ok status \<or> body = None)"

section \<open>Device resolver\<close>

datatype js_exception = JsError string

record tradein_args =
  a_brand :: string
  a_model :: string
  a_capacity :: "string option"
  a_good_condition :: "bool option"

record tradein_device =
  d_brand :: string
  d_model :: string
  d_capacity :: string
  d_image :: string
  base_value :: rat
  condition_value :: int
  available_capacities :: "(string \<times> rat) list"

record tradein_value_result =
  tv_success :: bool
  tv_device :: "tradein_device option"
  tv_message :: string

definition phone_category :: "TradeInApiResponse \<Rightarrow> TradeInCategory option" where
  "phone_category d = find (\<lambda>c. category c = ''phone'') (devices d)"

definition fuzzy_match :: "string \<Rightarrow> string \<Rightarrow> bool" where
  "fuzzy_match name query =
     (str_includes (toLowerCase name) (toLowerCase query) \<or>
      str_includes (toLowerCase query) (toLowerCase name))"

definition condition_multiplier :: "bool option \<Rightarrow> rat" where
  "condition_multiplier good_condition = (if good_condition \<noteq> Some False then 1 else 1 / 2)"

text \<open>
  \<open>model.productFamily[0]\<close> is \<open>undefined\<close> for an empty family, and reading
  \<open>selectedDevice.modelPrice\<close> then throws a \<open>TypeError\<close>.
\<close>

definition first_device :: "TradeInDevice list \<Rightarrow> TradeInDevice option" where
  "first_device pfs = (case pfs of [] \<Rightarrow> None | pf # _ \<Rightarrow> Some pf)"

definition undefined_read :: js_exception where
  "undefined_read = JsError ''Cannot read properties of undefined''"

text \<open>The body of \<open>getTradeInValue\<close> after \<open>const data = await fetchTradeInData()\<close>.\<close>

definition getTradeInValue_of ::
  "TradeInApiResponse option \<Rightarrow> tradein_args \<Rightarrow> js_exception + tradein_value_result" where
  "getTradeInValue_of data args =
     (case data of
        None \<Rightarrow> Inr \<lparr>tv_success = False, tv_device = None,
                     tv_message = ''Unable to fetch trade-in data. Please try again.''\<rparr>
      | Some d \<Rightarrow>
     (case phone_category d of
        None \<Rightarrow> Inr \<lparr>tv_success = False, tv_device = None,
                     tv_message = ''Trade-in data not available.''\<rparr>
      | Some phoneCategory \<Rightarrow>
     (case find (\<lambda>m. toLowerCase (make_name m) = toLowerCase (a_brand args)) (makes phoneCategory) of
        None \<Rightarrow> Inr \<lparr>tv_success = False, tv_device = None,
                     tv_message = ''Brand \"'' @ a_brand args @ ''\" not found. Available brands: ''
                       @ join '', '' (map make_name (makes phoneCategory))\<rparr>
      | Some mk \<Rightarrow>
     (case find (\<lambda>m. fuzzy_match (model_name m) (a_model args)) (models mk) of
        None \<Rightarrow> Inr \<lparr>tv_success = False, tv_device = None,
                     tv_message = ''Model \"'' @ a_model args @ ''\" not found for '' @ a_brand args
                       @ ''. Available models: ''
                       @ join '', '' (map model_name (take 10 (models mk))) @ ''...''\<rparr>
      | Some mdl \<Rightarrow>
          (let capacities = map (\<lambda>pf. (capacity pf, modelPrice pf)) (productFamily mdl);
               selectedDevice = first_device (productFamily mdl);
               selectedDevice =
                 (case a_capacity args of
                    None \<Rightarrow> selectedDevice
                  | Some cap \<Rightarrow>
                      if cap = [] then selectedDevice
                      else (case find (\<lambda>pf. toLowerCase (capacity pf) = toLowerCase cap)
                                   (productFamily mdl) of
                              None \<Rightarrow> selectedDevice
                            | Some match \<Rightarrow> Some match))
           in case selectedDevice of
                None \<Rightarrow> Inl undefined_read
              | Some sd \<Rightarrow>
                  (let conditionMultiplier = condition_multiplier (a_good_condition args);
                       conditionValue = Math_round (modelPrice sd * conditionMultiplier)
                   in Inr \<lparr>tv_success = True,
                           tv_device = Some \<lparr>d_brand = a_brand args, d_model = model_name mdl,
                             d_capacity = capacity sd, d_image = image sd,
                             base_value = modelPrice sd, condition_value = conditionValue,
                             available_capacities = capacities\<rparr>,
                           tv_message = ''Trade-in value for '' @ model_name mdl @ '' (''
                             @ capacity sd @ ''): $'' @ show_int conditionValue\<rparr>))))))"

definition getTradeInValue ::
  "int \<Rightarrow> TradeInApiResponse fetch \<Rightarrow> cache_state \<Rightarrow> tradein_args
     \<Rightarrow> (js_exception + tradein_value_result) \<times> cache_state" where
  "getTradeInValue now upstream st args =
     (let f = fetchTradeInData now upstream st
      in (getTradeInValue_of (returned f) args, cache_after f))"

text \<open>
  \<open>matchImeiToTradeIn\<close>. Of \<open>ImeiDeviceInfo\<close> only the members that are read are kept;
  \<open>a || b\<close> on an optional string picks \<open>a\<close> when it is present and not empty.
\<close>

record ImeiDeviceInfo =
  manufacturer :: "string option"
  di_model :: "string option"
  modelName :: "string option"
  di_brand :: "string option"
  di_capacity :: "string option"

fun or_str :: "string option \<Rightarrow> string \<Rightarrow> string" where
  "or_str None t = t"
| "or_str (Some s) t = (if s = [] then t else s)"

definition remove_spaces :: "string \<Rightarrow> string" where
  "remove_spaces s = filter (\<lambda>c. \<not> is_space c) s"

record match_device =
  md_brand :: string
  md_model :: string
  md_capacity :: string
  md_modelCode :: string
  md_available_capacities :: "(string \<times> rat \<times> string) list"
  md_image :: string

record match_result =
  matched :: bool
  tradeInValue :: "rat option"
  m_device :: "match_device option"

definition not_matched :: match_result where
  "not_matched = \<lparr>matched = False, tradeInValue = None, m_device = None\<rparr>"

definition matchImeiToTradeIn_of ::
  "TradeInApiResponse option \<Rightarrow> ImeiDeviceInfo \<Rightarrow> js_exception + match_result" where
  "matchImeiToTradeIn_of data deviceInfo =
     (case data of None \<Rightarrow> Inr not_matched | Some d \<Rightarrow>
     (case phone_category d of None \<Rightarrow> Inr not_matched | Some phoneCategory \<Rightarrow>
     (let brandName = or_str (manufacturer deviceInfo) (or_str (di_brand deviceInfo) []);
          mName = or_str (modelName deviceInfo) (or_str (di_model deviceInfo) []);
          cap = or_str (di_capacity deviceInfo) []
      in if brandName = [] \<and> mName = [] then Inr not_matched else
     (case find (\<lambda>m. fuzzy_match (make_name m) brandName) (makes phoneCategory) of
        None \<Rightarrow> Inr not_matched | Some mk \<Rightarrow>
     (case find (\<lambda>m. fuzzy_match (model_name m) mName) (models mk) of
        None \<Rightarrow> Inr not_matched | Some mdl \<Rightarrow>
          (let selectedDevice = first_device (productFamily mdl);
               selectedDevice =
                 (if cap = [] then selectedDevice
                  else (case find (\<lambda>pf. remove_spaces (toLowerCase (capacity pf))
                                         = remove_spaces (toLowerCase cap))
                               (productFamily mdl) of
                          None \<Rightarrow> selectedDevice
                        | Some match \<Rightarrow> Some match))
           in case selectedDevice of
                None \<Rightarrow> Inl undefined_read
              | Some sd \<Rightarrow>
                  Inr \<lparr>matched = True, tradeInValue = Some (modelPrice sd),
                       m_device = Some \<lparr>md_brand = make_name mk, md_model = model_name mdl,
                         md_capacity = capacity sd, md_modelCode = modelCode sd,
                         md_available_capacities =
                           map (\<lambda>pf. (capacity pf, modelPrice pf, modelCode pf)) (productFamily mdl),
                         md_image = image sd\<rparr>\<rparr>))))))"

definition matchImeiToTradeIn ::
  "int \<Rightarrow> TradeInApiResponse fetch \<Rightarrow> cache_state \<Rightarrow> ImeiDeviceInfo
     \<Rightarrow> (js_exception + match_result) \<times> cache_state" where
  "matchImeiToTradeIn now upstream st deviceInfo =
     (let f = fetchTradeInData now upstream st
      in (matchImeiToTradeIn_of (returned f) deviceInfo, cache_after f))"

section \<open>Verification gateway client\<close>

text \<open>
  Of the gateway's JSON body the client reads two members. \<open>body_code\<close> is the value of
  \<open>data?.code ? Number(data.code) : null\<close>: \<open>None\<close> when the member is missing or falsy,
  otherwise the number it converts to (\<open>NaN\<close> for a text that is not a number, \<open>Num 0\<close>
  for a truthy value such as the text \<open>"0"\<close>). \<open>body_message\<close> is the value of
  \<open>(data?.message as string) || ""\<close>.
\<close>

record HylaResponse =
  body_code :: "jsnum option"
  body_message :: string

record hyla_params =
  p_modelCode :: string
  p_imei :: string
  p_mtn :: "string option"
  p_responseToken :: "string option"

record hyla_result =
  success :: bool
  data :: "HylaResponse option"
  status :: nat
  hylaCode :: "jsnum option"
  hylaMessage :: string
  message :: string

definition HYLA_ERROR_CODES :: "int \<rightharpoonup> string" where
  "HYLA_ERROR_CODES = map_of
     [(4009, ''IMEI does not match the selected device brand''),
      (4010, ''IMEI is blacklisted or reported stolen''),
      (4011, ''Device is not eligible for trade-in''),
      (4001, ''Invalid IMEI format''),
      (4002, ''IMEI not found in database''),
      (400, ''Bad request (missing session token or invalid parameters)'')]"

fun known_error :: "jsnum option \<Rightarrow> string option" where
  "known_error (Some (Num n)) = (if n \<noteq> 0 then HYLA_ERROR_CODES n else None)"
| "known_error _ = None"

definition or_else :: "string \<Rightarrow> string \<Rightarrow> string" where
  "or_else s t = (if s = [] then t else s)"

text \<open>
  The \<open>try\<close> block of \<open>callHylaGateway\<close>: \<open>Inl\<close> is an exception that reaches the
  \<open>catch\<close>. The request is built from \<open>params\<close>; \<open>reply\<close> is what the gateway does
  with it. A body that is not JSON is caught inside and leaves \<open>data\<close> null.
\<close>

definition callHylaGateway_try :: "hyla_params \<Rightarrow> HylaResponse fetch \<Rightarrow> js_exception + hyla_result" where
  "callHylaGateway_try params reply =
     (case reply of
        Rejects e \<Rightarrow> Inl (JsError e)
      | Response httpStatus body \<Rightarrow>
          (let hylaCode = (case body of None \<Rightarrow> None | Some b \<Rightarrow> body_code b);
               hylaMessage = (case body of None \<Rightarrow> [] | Some b \<Rightarrow> body_message b)
           in if response_ok httpStatus \<and> (\<not> truthy_code hylaCode \<or> code_lt hylaCode 4000) then
                Inr \<lparr>success = True, data = body, status = httpStatus, hylaCode = hylaCode,
                     hylaMessage = hylaMessage, message = ''Hyla verification successful''\<rparr>
              else
                (let knownError = (case known_error hylaCode of None \<Rightarrow> [] | Some k \<Rightarrow> k)
                 in Inr \<lparr>success = False, data = body, status = httpStatus, hylaCode = hylaCode,
                         hylaMessage = or_else hylaMessage knownError,
                         message = or_else hylaMessage
                           (or_else knownError (''Hyla returned HTTP '' @ show_nat httpStatus))\<rparr>)))"

definition callHylaGateway :: "hyla_params \<Rightarrow> HylaResponse fetch \<Rightarrow> hyla_result" where
  "callHylaGateway params reply =
     (case callHylaGateway_try params reply of
        Inr r \<Rightarrow> r
      | Inl (JsError errMsg) \<Rightarrow>
          \<lparr>success = False, data = None, status = 0, hylaCode = None, hylaMessage = [],
           message = ''Hyla API unreachable: '' @ errMsg\<rparr>)"

section \<open>Trade-in gate: the \<open>get_tradein_value\<close> tool\<close>

datatype VerificationOutcome = Verified | Mismatch | DeviceIneligible | Unverifiable

text \<open>
  What a tool handler meets while it runs: the clock reading and the catalog endpoint's
  answer for its own catalog look-up, the gateway's answer, and the clock reading and
  catalog answer for the look-up made by the resolver it calls afterwards.
\<close>

record tool_env =
  clock1 :: int
  catalog1 :: "TradeInApiResponse fetch"
  gateway :: "HylaResponse fetch"
  clock2 :: int
  catalog2 :: "TradeInApiResponse fetch"

record gtv_args =
  g_brand :: string
  g_model :: string
  g_imei :: string
  g_capacity :: "string option"
  g_good_condition :: "bool option"

text \<open>
  The nested \<open>for\<close> loops that look the model code up. The inner loop stops at the first
  model whose name contains the query and whose family is not empty; the outer loop stops
  once the model code is a non-empty string.
\<close>

fun find_model_code :: "string \<Rightarrow> TradeInModel list \<Rightarrow> string option" where
  "find_model_code modelLower [] = None"
| "find_model_code modelLower (mdl # rest) =
     (if \<not> str_includes (toLowerCase (model_name mdl)) modelLower then find_model_code modelLower rest
      else (case productFamily mdl of
              [] \<Rightarrow> find_model_code modelLower rest
            | pf # _ \<Rightarrow> Some (modelCode pf)))"

fun lookup_model_code :: "string \<Rightarrow> string \<Rightarrow> TradeInMake list \<Rightarrow> string \<Rightarrow> string" where
  "lookup_model_code brandLower modelLower [] code = code"
| "lookup_model_code brandLower modelLower (mk # rest) code =
     (if \<not> str_includes (toLowerCase (make_name mk)) brandLower
      then lookup_model_code brandLower modelLower rest code
      else (let code = (case find_model_code modelLower (models mk) of None \<Rightarrow> code | Some c \<Rightarrow> c)
            in if code \<noteq> [] then code else lookup_model_code brandLower modelLower rest code))"

text \<open>
  The replies of the tool, one constructor for each \<open>return\<close> of the handler, named after
  the heading of the text it returns and carrying the values that text interpolates:
  \<open>MismatchBlocked\<close> is "IMEI MISMATCH - TRADE-IN BLOCKED", \<open>NotEligible\<close> is "DEVICE NOT
  ELIGIBLE FOR TRADE-IN", \<open>VerificationUnavailable\<close> and \<open>NotInCatalog\<close> are "TRADE-IN
  VALUE UNAVAILABLE", \<open>VerifiedNoValue\<close> is "IMEI is verified but ...", \<open>VerifiedValue\<close>
  is "VERIFIED TRADE-IN VALUE" with the line "TRADE-IN VALUE: $condition_value", and
  \<open>UnableToFetch\<close> is the text of the \<open>catch\<close>.
\<close>

datatype tradein_reply =
    ProvideBrandAndModel
  | ImeiRequired
  | InvalidImei string
  | NotInCatalog
  | MismatchBlocked string
  | NotEligible "jsnum option" string
  | VerificationUnavailable
  | VerifiedNoValue string
  | VerifiedValue tradein_device
  | UnableToFetch

text \<open>The chain of conditions under "Gate trade-in value based on Hyla verification".\<close>

definition gate_outcome :: "hyla_result \<Rightarrow> VerificationOutcome" where
  "gate_outcome hylaResult =
     (if hylaCode hylaResult = Some (Num 4009) then Mismatch
      else if truthy_code (hylaCode hylaResult) \<and> code_ge (hylaCode hylaResult) 4010 then DeviceIneligible
      else if \<not> success hylaResult \<and> \<not> truthy_code (hylaCode hylaResult) then Unverifiable
      else Verified)"

definition get_tradein_value_try ::
  "tool_env \<Rightarrow> cache_state \<Rightarrow> gtv_args \<Rightarrow> (js_exception + tradein_reply) \<times> cache_state" where
  "get_tradein_value_try env st args =
     (let brand = g_brand args; model = g_model args; cap = or_str (g_capacity args) [] in
      if brand = [] \<or> model = [] then (Inr ProvideBrandAndModel, st)
      else if g_imei args = [] then (Inr ImeiRequired, st)
      else
        (let validation = validateImeiFormat (g_imei args) in
         if \<not> valid validation then (Inr (InvalidImei (vmessage validation)), st)
         else
           (let clean = cleanImei validation;
                f = fetchTradeInData (clock1 env) (catalog1 env) st;
                st1 = cache_after f;
                code = (case returned f of
                          None \<Rightarrow> []
                        | Some d \<Rightarrow>
                            (case phone_category d of
                               None \<Rightarrow> []
                             | Some phoneCategory \<Rightarrow>
                                 lookup_model_code (toLowerCase brand) (toLowerCase model)
                                   (makes phoneCategory) []))
            in if code = [] then (Inr NotInCatalog, st1)
               else
                 (let hylaResult = callHylaGateway
                        \<lparr>p_modelCode = code, p_imei = clean, p_mtn = None, p_responseToken = None\<rparr>
                        (gateway env)
                  in case gate_outcome hylaResult of
                       Mismatch \<Rightarrow> (Inr (MismatchBlocked (hylaMessage hylaResult)), st1)
                     | DeviceIneligible \<Rightarrow>
                         (Inr (NotEligible (hylaCode hylaResult) (hylaMessage hylaResult)), st1)
                     | Unverifiable \<Rightarrow> (Inr VerificationUnavailable, st1)
                     | Verified \<Rightarrow>
                         (let (result, st2) = getTradeInValue (clock2 env) (catalog2 env) st1
                                \<lparr>a_brand = brand, a_model = model, a_capacity = Some cap,
                                 a_good_condition = g_good_condition args\<rparr>
                          in case result of
                               Inl e \<Rightarrow> (Inl e, st2)
                             | Inr r \<Rightarrow>
                                 (case tv_device r of
                                    None \<Rightarrow> (Inr (VerifiedNoValue (tv_message r)), st2)
                                  | Some device \<Rightarrow>
                                      if \<not> tv_success r then (Inr (VerifiedNoValue (tv_message r)), st2)
                                      else (Inr (VerifiedValue device), st2)))))))"

definition get_tradein_value :: "tool_env \<Rightarrow> cache_state \<Rightarrow> gtv_args \<Rightarrow> tradein_reply \<times> cache_state" where
  "get_tradein_value env st args =
     (case get_tradein_value_try env st args of
        (Inr reply, st') \<Rightarrow> (reply, st')
      | (Inl e, st') \<Rightarrow> (UnableToFetch, st'))"

fun disclosed_value :: "tradein_reply \<Rightarrow> int option" where
  "disclosed_value (VerifiedValue device) = Some (condition_value device)"
| "disclosed_value _ = None"

section \<open>Trade-in gate: the \<open>validate_imei\<close> tool\<close>

record vi_args =
  v_imei :: string
  v_brand :: "string option"
  v_model :: "string option"
  v_model_code :: "string option"
  v_mtn :: "string option"
  v_response_token :: "string option"
  v_check_tradein :: "bool option"
  v_good_condition :: "bool option"

text \<open>
  The look-up loops of this tool skip a test whose query is empty and also record the
  catalog names of the entry they stop at.
\<close>

fun v_find_model :: "string \<Rightarrow> TradeInModel list \<Rightarrow> (string \<times> string) option" where
  "v_find_model modelLower [] = None"
| "v_find_model modelLower (mdl # rest) =
     (if modelLower \<noteq> [] \<and> \<not> str_includes (toLowerCase (model_name mdl)) modelLower
      then v_find_model modelLower rest
      else (case productFamily mdl of
              [] \<Rightarrow> v_find_model modelLower rest
            | pf # _ \<Rightarrow> Some (modelCode pf, model_name mdl)))"

fun v_lookup ::
  "string \<Rightarrow> string \<Rightarrow> TradeInMake list \<Rightarrow> string \<times> string \<times> string \<Rightarrow> string \<times> string \<times> string" where
  "v_lookup brandLower modelLower [] found = found"
| "v_lookup brandLower modelLower (mk # rest) found =
     (if brandLower \<noteq> [] \<and> \<not> str_includes (toLowerCase (make_name mk)) brandLower
      then v_lookup brandLower modelLower rest found
      else (let found = (case v_find_model modelLower (models mk) of
                           None \<Rightarrow> found
                         | Some (c, n) \<Rightarrow> (c, make_name mk, n))
            in if fst found \<noteq> [] then found else v_lookup brandLower modelLower rest found))"

text \<open>
  The reply of the tool for a valid identifier is built in two steps: the note appended
  under "HYLA MOBILE VERIFICATION" (absent when the gateway is not called) and the trade-in
  section appended afterwards. \<open>ValueShown\<close> is the section headed "IMEI VERIFIED - TRADE-IN
  VALUE", with the line "ESTIMATED TRADE-IN VALUE: $conditionValue"; it carries the device,
  the base value and the condition value (absent values stand for \<open>undefined\<close> and
  \<open>NaN\<close>). \<open>NoSection\<close> means that nothing is appended.
\<close>

datatype hyla_note =
    NoteVerified
  | NoteMismatch string
  | NoteDeviceIssue "jsnum option" string
  | NoteNoToken
  | NoteOther string

datatype tradein_section =
    BlockedMismatch
  | BlockedDeviceIssue "jsnum option" string
  | ValueShown match_device "rat option" "int option"
  | NoTradeInMatch
  | BlockedVerificationRequired
  | AskBrandAndModel
  | NoSection

datatype imei_reply =
    InvalidImeiReply imei_validation
  | ValidImeiReply string "hyla_note option" tradein_section
  | UnableToValidate

definition verification_note :: "hyla_result \<Rightarrow> hyla_note" where
  "verification_note h =
     (if success h then NoteVerified
      else if hylaCode h = Some (Num 4009) then NoteMismatch (hylaMessage h)
      else if truthy_code (hylaCode h) \<and> code_ge (hylaCode h) 4000
        then NoteDeviceIssue (hylaCode h) (hylaMessage h)
      else if status h = 400 \<and> \<not> truthy_code (hylaCode h) then NoteNoToken
      else NoteOther (message h))"

definition hylaVerified :: "hyla_result option \<Rightarrow> bool" where
  "hylaVerified hylaResult = (case hylaResult of None \<Rightarrow> False | Some h \<Rightarrow> success h)"

definition hylaMismatch :: "hyla_result option \<Rightarrow> bool" where
  "hylaMismatch hylaResult = (case hylaResult of None \<Rightarrow> False | Some h \<Rightarrow> hylaCode h = Some (Num 4009))"

definition hylaDeviceIssue :: "hyla_result option \<Rightarrow> bool" where
  "hylaDeviceIssue hylaResult =
     (case hylaResult of None \<Rightarrow> False | Some h \<Rightarrow> hylaCode h \<noteq> None \<and> code_ge (hylaCode h) 4010)"

definition hylaNoToken :: "hyla_result option \<Rightarrow> bool" where
  "hylaNoToken hylaResult =
     (case hylaResult of None \<Rightarrow> False | Some h \<Rightarrow> status h = 400 \<and> \<not> truthy_code (hylaCode h))"

definition hylaNotCalled :: "hyla_result option \<Rightarrow> bool" where
  "hylaNotCalled hylaResult = (hylaResult = None)"

text \<open>
  Step 3 of the handler: the model code given by the caller, or else looked up in the
  catalog when a brand or a model is given. It yields the model code with the brand and
  model names recorded beside it, and the cache as the look-up leaves it.
\<close>

definition find_catalog_entry ::
  "tool_env \<Rightarrow> cache_state \<Rightarrow> vi_args \<Rightarrow> (string \<times> string \<times> string) \<times> cache_state" where
  "find_catalog_entry env st args =
     (let brand = or_str (v_brand args) [];
          model = or_str (v_model args) [];
          found0 = (or_str (v_model_code args) [], brand, model)
      in if fst found0 = [] \<and> (brand \<noteq> [] \<or> model \<noteq> []) then
           (let f = fetchTradeInData (clock1 env) (catalog1 env) st
            in ((case returned f of
                   None \<Rightarrow> found0
                 | Some d \<Rightarrow>
                     (case phone_category d of
                        None \<Rightarrow> found0
                      | Some phoneCategory \<Rightarrow>
                          v_lookup (toLowerCase brand) (toLowerCase model)
                            (makes phoneCategory) found0)),
                cache_after f))
         else (found0, st))"

text \<open>\<open>identifiedBrand\<close> and \<open>identifiedModel\<close> of step 5: the catalog name, or else the caller's.\<close>

definition identifiedBrand :: "tool_env \<Rightarrow> cache_state \<Rightarrow> vi_args \<Rightarrow> string" where
  "identifiedBrand env st args =
     or_else (fst (snd (fst (find_catalog_entry env st args)))) (or_str (v_brand args) [])"

definition identifiedModel :: "tool_env \<Rightarrow> cache_state \<Rightarrow> vi_args \<Rightarrow> string" where
  "identifiedModel env st args =
     or_else (snd (snd (fst (find_catalog_entry env st args)))) (or_str (v_model args) [])"

definition validate_imei_try ::
  "tool_env \<Rightarrow> cache_state \<Rightarrow> vi_args \<Rightarrow> (js_exception + imei_reply) \<times> cache_state" where
  "validate_imei_try env st args =
     (let validation = validateImeiFormat (v_imei args) in
      if \<not> valid validation then (Inr (InvalidImeiReply validation), st)
      else
        (let clean = cleanImei validation;
             (found, st1) = find_catalog_entry env st args;
             code = fst found;
             hylaResult = (if code \<noteq> []
                           then Some (callHylaGateway
                                  \<lparr>p_modelCode = code, p_imei = clean, p_mtn = v_mtn args,
                                   p_responseToken = v_response_token args\<rparr> (gateway env))
                           else None);
             note = map_option verification_note hylaResult;
             shouldCheckTradeIn = (v_check_tradein args \<noteq> Some False);
             idBrand = identifiedBrand env st args;
             idModel = identifiedModel env st args
         in if shouldCheckTradeIn \<and> (idBrand \<noteq> [] \<or> idModel \<noteq> []) then
              (if hylaMismatch hylaResult then (Inr (ValidImeiReply code note BlockedMismatch), st1)
               else if hylaDeviceIssue hylaResult then
                 (Inr (ValidImeiReply code note
                    (BlockedDeviceIssue (hylaCode (the hylaResult)) (hylaMessage (the hylaResult)))), st1)
               else if hylaVerified hylaResult then
                 (let (tradeIn, st2) = matchImeiToTradeIn (clock2 env) (catalog2 env) st1
                        \<lparr>manufacturer = Some idBrand, di_model = Some idModel,
                         modelName = Some idModel, di_brand = Some idBrand,
                         di_capacity = None\<rparr>
                  in case tradeIn of
                       Inl e \<Rightarrow> (Inl e, st2)
                     | Inr t \<Rightarrow>
                         (case m_device t of
                            None \<Rightarrow> (Inr (ValidImeiReply code note NoTradeInMatch), st2)
                          | Some device \<Rightarrow>
                              if \<not> matched t then (Inr (ValidImeiReply code note NoTradeInMatch), st2)
                              else
                                (let conditionMultiplier = condition_multiplier (v_good_condition args);
                                     conditionValue = map_option
                                       (\<lambda>v. Math_round (v * conditionMultiplier)) (tradeInValue t)
                                 in (Inr (ValidImeiReply code note
                                       (ValueShown device (tradeInValue t) conditionValue)), st2))))
               else if hylaNoToken hylaResult \<or> hylaNotCalled hylaResult then
                 (Inr (ValidImeiReply code note BlockedVerificationRequired), st1)
               else (Inr (ValidImeiReply code note NoSection), st1))
            else if shouldCheckTradeIn \<and> idBrand = [] \<and> idModel = [] then
              (Inr (ValidImeiReply code note AskBrandAndModel), st1)
            else (Inr (ValidImeiReply code note NoSection), st1)))"

definition validate_imei :: "tool_env \<Rightarrow> cache_state \<Rightarrow> vi_args \<Rightarrow> imei_reply \<times> cache_state" where
  "validate_imei env st args =
     (case validate_imei_try env st args of
        (Inr reply, st') \<Rightarrow> (reply, st')
      | (Inl e, st') \<Rightarrow> (UnableToValidate, st'))"


fun shown_value :: "imei_reply \<Rightarrow> int option" where
  "shown_value (ValidImeiReply code note (ValueShown device base v)) = v"
| "shown_value _ = None"

text \<open>
  The gateway's answer classified as the specification words it: a failed transport or a
  response whose body is not JSON is unverifiable; otherwise only the specific mismatch
  code between 4000 and 4010 (4009) is a mismatch, every code from 4010 on is an
  ineligible device, an HTTP success with no code from 4000 on is verified, and everything
  else (any other code, an error status without a code) is unverifiable.
\<close>

definition spec_outcome :: "HylaResponse fetch \<Rightarrow> VerificationOutcome" where
  "spec_outcome reply =
     (case reply of
        Rejects e \<Rightarrow> Unverifiable
      | Response st None \<Rightarrow> Unverifiable
      | Response st (Some b) \<Rightarrow>
          (let c = body_code b
           in if c = Some (Num 4009) then Mismatch
              else if code_ge c 4010 then DeviceIneligible
              else if response_ok st \<and> \<not> code_ge c 4000 then Verified
              else Unverifiable))"

text \<open>
  The variant as the specification selects it: the first whose capacity equals the
  requested one, letter case ignored; the first listed variant when no capacity is
  requested or none matches.
\<close>

definition spec_selected_variant :: "string \<Rightarrow> TradeInDevice list \<Rightarrow> TradeInDevice option" where
  "spec_selected_variant cap family =
     (if cap = [] then first_device family
      else (case find (\<lambda>v. toLowerCase (capacity v) = toLowerCase cap) family of
              Some v \<Rightarrow> Some v
            | None \<Rightarrow> first_device family))"

section \<open>Fixtures\<close>

text \<open>
  A small catalog for the worked examples: a tablet category that must be skipped, and a
  phone category with three makes, the last of which has eleven models.
\<close>

definition variant :: "string \<Rightarrow> string \<Rightarrow> rat \<Rightarrow> TradeInDevice" where
  "variant cap code price =
     \<lparr>dev_name = cap, image = ''img.png'', modelCode = code, modelPrice = price,
      capacity = cap, promotions = []\<rparr>"

definition single :: "string \<Rightarrow> string \<Rightarrow> rat \<Rightarrow> TradeInModel" where
  "single n code price = \<lparr>model_name = n, productFamily = [variant ''128GB'' code price]\<rparr>"

definition apple_make :: TradeInMake where
  "apple_make = \<lparr>make_name = ''Apple'', models =
     [\<lparr>model_name = ''iPhone 15 Pro Max'',
       productFamily = [variant ''256GB'' ''2380452'' 800, variant ''512GB'' ''2380453'' 905]\<rparr>,
      single ''iPhone 15'' ''2380400'' 500]\<rparr>"

definition samsung_make :: TradeInMake where
  "samsung_make = \<lparr>make_name = ''Samsung'', models = [single ''Galaxy S24 Ultra'' ''2390001'' 700]\<rparr>"

definition google_make :: TradeInMake where
  "google_make = \<lparr>make_name = ''Google'', models =
     [single ''Pixel 9 Pro'' ''2400009'' 450, single ''Pixel 9'' ''2400008'' 400,
      single ''Pixel 8 Pro'' ''2400007'' 350, single ''Pixel 8'' ''2400006'' 300,
      single ''Pixel 7 Pro'' ''2400005'' 250, single ''Pixel 7'' ''2400004'' 200,
      single ''Pixel 6 Pro'' ''2400003'' 150, single ''Pixel 6'' ''2400002'' 120,
      single ''Pixel 5'' ''2400001'' 100, single ''Pixel 4'' ''2400000'' 80,
      single ''Pixel Fold'' ''2400010'' 600]\<rparr>"

definition sample_catalog :: TradeInApiResponse where
  "sample_catalog = \<lparr>date = ''2026-01-01'', devices =
     [\<lparr>category = ''tablet'', makes = []\<rparr>,
      \<lparr>category = ''phone'', makes = [apple_make, samsung_make, google_make]\<rparr>]\<rparr>"

definition newer_catalog :: TradeInApiResponse where
  "newer_catalog = \<lparr>date = ''2026-02-01'', devices =
     [\<lparr>category = ''phone'', makes = [samsung_make]\<rparr>]\<rparr>"

text \<open>A catalog in which a model with an empty family precedes one that has a variant.\<close>

definition sparse_catalog :: TradeInApiResponse where
  "sparse_catalog = \<lparr>date = ''2026-01-01'', devices =
     [\<lparr>category = ''phone'', makes =
        [\<lparr>make_name = ''Apple'', models =
           [\<lparr>model_name = ''iPhone 15 Plus'', productFamily = []\<rparr>,
            single ''iPhone 15 Pro'' ''2380410'' 650]\<rparr>]\<rparr>]\<rparr>"

definition warm_cache :: cache_state where
  "warm_cache = \<lparr>tradeInCache = Some sample_catalog, tradeInCacheTime = 1000\<rparr>"

definition gateway_verified :: "HylaResponse fetch" where
  "gateway_verified = Response 200 (Some \<lparr>body_code = None, body_message = []\<rparr>)"


definition gateway_not_found :: "HylaResponse fetch" where
  "gateway_not_found = Response 400 (Some \<lparr>body_code = Some (Num 4002),
     body_message = ''IMEI not found in database''\<rparr>)"

definition sample_env :: "HylaResponse fetch \<Rightarrow> tool_env" where
  "sample_env reply = \<lparr>clock1 = 2000, catalog1 = Rejects ''offline'', gateway = reply,
     clock2 = 3000, catalog2 = Rejects ''offline''\<rparr>"

definition sample_request :: "bool option \<Rightarrow> gtv_args" where
  "sample_request good = \<lparr>g_brand = ''Apple'', g_model = ''iPhone 15 Pro Max'',
     g_imei = ''490154203237518'', g_capacity = None, g_good_condition = good\<rparr>"

definition sample_imei_request :: "bool option \<Rightarrow> bool option \<Rightarrow> vi_args" where
  "sample_imei_request check good = \<lparr>v_imei = ''490154203237518'', v_brand = Some ''Apple'',
     v_model = Some ''iPhone 15 Pro Max'', v_model_code = None, v_mtn = None,
     v_response_token = None, v_check_tradein = check, v_good_condition = good\<rparr>"

section \<open>The checksum validator meets its specification\<close>

lemma luhn_loop_digits:
  "list_all is_digit cs \<Longrightarrow>
   luhn_loop i cs (Some a) = Some (a + (\<Sum>j<length cs. spec_transform (i + j) (digit_value (cs ! j))))"
proof (induction cs arbitrary: i a)
  case Nil
  then show ?case by simp
next
  case (Cons c cs)
  from Cons.prems have c: "is_digit c" and cs: "list_all is_digit cs" by simp_all
  have step: "luhn_loop i (c # cs) (Some a) =
      luhn_loop (Suc i) cs (Some (a + spec_transform i (digit_value c)))"
    using c by (simp add: parseInt_char_def spec_transform_def digit_value_def Let_def
        odd_iff_mod_2_eq_one mult.commute)
  show ?case
    unfolding step Cons.IH [OF cs]
    by (simp add: sum.lessThan_Suc_shift add.assoc del: sum.lessThan_Suc)
qed

lemma luhn_sum_spec: "list_all is_digit s \<Longrightarrow> luhn_loop 0 s (Some 0) = Some (spec_checksum s)"
  by (simp add: luhn_loop_digits spec_checksum_def)

lemma luhnCheck_spec: "list_all is_digit s \<Longrightarrow> luhnCheck s = spec_checksum_valid s"
  by (simp add: luhnCheck_def spec_checksum_valid_def luhn_sum_spec)

text \<open>
  C3. On every string of 15 digits the loop of \<open>luhnCheck\<close> ends with a number (never
  \<open>NaN\<close>), that number is the checksum as the specification words it (positions from the
  left starting at 0, a digit at an odd position doubled and reduced by 9 when the double
  exceeds 9, the results summed), and \<open>luhnCheck\<close> answers whether it is a multiple of 10.
  \<open>luhnCheck\<close> is a function with no failing step, so it is deterministic and total. The
  fixture 490154203237518 passes the checksum and validates; 490154203237519 fails it.
\<close>

theorem luhnCheck_implements_checksum:
  "(\<forall>s. length s = 15 \<and> list_all is_digit s \<longrightarrow>
        luhn_loop 0 s (Some 0) = Some (spec_checksum s) \<and> luhnCheck s = spec_checksum_valid s)
   \<and> luhnCheck ''490154203237518'' \<and> valid (validateImeiFormat ''490154203237518'')
   \<and> \<not> luhnCheck ''490154203237519'' \<and> \<not> luhnValid (validateImeiFormat ''490154203237519'')"
proof -
  have a: "\<forall>s. length s = 15 \<and> list_all is_digit s \<longrightarrow>
        luhn_loop 0 s (Some 0) = Some (spec_checksum s) \<and> luhnCheck s = spec_checksum_valid s"
    by (simp add: luhn_sum_spec luhnCheck_spec)
  have b: "luhnCheck ''490154203237518''" by code_simp
  have c: "valid (validateImeiFormat ''490154203237518'')" by code_simp
  have d: "\<not> luhnCheck ''490154203237519''" by code_simp
  have e: "\<not> luhnValid (validateImeiFormat ''490154203237519'')" by code_simp
  from a b c d e show ?thesis by blast
qed

theorem luhnCheck_implements_checksum_witness:
  "length ''490154203237518'' = 15 \<and> list_all is_digit ''490154203237518''
   \<and> luhn_loop 0 ''490154203237518'' (Some 0) = Some 60
   \<and> spec_checksum ''490154203237518'' = 60
   \<and> spec_checksum_valid ''490154203237518''"
proof -
  have h: "length ''490154203237518'' = 15 \<and> list_all is_digit ''490154203237518''"
    by (simp add: is_digit_def)
  have v: "spec_checksum ''490154203237518'' = 60" by code_simp
  from luhnCheck_implements_checksum h
  have "luhn_loop 0 ''490154203237518'' (Some 0) = Some (spec_checksum ''490154203237518'')
        \<and> luhnCheck ''490154203237518'' = spec_checksum_valid ''490154203237518''"
    by blast
  moreover from luhnCheck_implements_checksum have "luhnCheck ''490154203237518''" by blast
  ultimately show ?thesis using h v by simp
qed

lemma read_nat_snoc: "read_nat (s @ [c]) = 10 * read_nat s + (of_char c - 48)"
  by (simp add: read_nat_def)

lemma of_char_digit_char: "d < 10 \<Longrightarrow> (of_char (digit_char d) :: nat) = 48 + d"
  by (simp add: digit_char_def)

lemma read_show_nat: "read_nat (show_nat n) = n"
proof (induction n rule: show_nat.induct)
  case (1 n)
  show ?case
  proof (cases "n < 10")
    case True
    then show ?thesis
      by (subst show_nat.simps) (simp add: read_nat_def of_char_digit_char)
  next
    case False
    with 1 have ih: "read_nat (show_nat (n div 10)) = n div 10" by simp
    have "read_nat (show_nat n)
        = 10 * read_nat (show_nat (n div 10)) + (of_char (digit_char (n mod 10)) - 48)"
      using False by (subst show_nat.simps) (simp add: read_nat_snoc)
    also have "\<dots> = 10 * (n div 10) + n mod 10"
      by (simp add: ih of_char_digit_char)
    finally show ?thesis by simp
  qed
qed

lemma validateImeiFormat_cases:
  "validateImeiFormat raw =
     (let clean = strip_separators raw in
      if length clean \<noteq> 15 then
        \<lparr>valid = False, cleanImei = clean, luhnValid = False,
         vmessage = ''IMEI must be exactly 15 digits. Received '' @ show_nat (length clean)
                    @ '' digit'' @ (if length clean \<noteq> 1 then ''s'' else [])
                    @ '': \"'' @ clean @ ''\"''\<rparr>
      else if \<not> list_all is_digit clean then
        \<lparr>valid = False, cleanImei = clean, luhnValid = False,
         vmessage = ''IMEI must contain only digits. Received: \"'' @ clean @ ''\"''\<rparr>
      else if \<not> luhnCheck clean then
        \<lparr>valid = False, cleanImei = clean, luhnValid = False,
         vmessage = ''IMEI failed Luhn checksum verification. This is likely not a valid IMEI number.''\<rparr>
      else
        \<lparr>valid = True, cleanImei = clean, luhnValid = True,
         vmessage = ''IMEI is valid (15 digits, Luhn checksum passed).''\<rparr>)"
  by (simp add: validateImeiFormat_def Let_def)

text \<open>
  C5. For every raw input the validator works on the input with white space (the no-break
  space included), hyphens, parentheses and full stops removed. When the cleaned length is not 15 it rejects with the
  length message, which reports that length, as a decimal numeral, as the number of digits
  received. When the
  cleaned length is 15 and a character is not a digit it rejects with the only-digits
  message. The "failed Luhn checksum" message is returned exactly for a cleaned string of 15
  digits that fails the checksum, so neither format rejection can be taken for it.
\<close>

theorem validateImeiFormat_rejections:
  "cleanImei (validateImeiFormat raw) = filter (\<lambda>c. \<not> is_separator c) raw
   \<and> (length (strip_separators raw) \<noteq> 15 \<longrightarrow>
        \<not> valid (validateImeiFormat raw) \<and>
        vmessage (validateImeiFormat raw) =
          ''IMEI must be exactly 15 digits. Received '' @ show_nat (length (strip_separators raw))
          @ '' digit'' @ (if length (strip_separators raw) \<noteq> 1 then ''s'' else [])
          @ '': \"'' @ strip_separators raw @ ''\"''
        \<and> read_nat (show_nat (length (strip_separators raw))) = length (strip_separators raw))
   \<and> (length (strip_separators raw) = 15 \<and> \<not> list_all is_digit (strip_separators raw) \<longrightarrow>
        \<not> valid (validateImeiFormat raw) \<and>
        vmessage (validateImeiFormat raw) =
          ''IMEI must contain only digits. Received: \"'' @ strip_separators raw @ ''\"'')
   \<and> (vmessage (validateImeiFormat raw) =
          ''IMEI failed Luhn checksum verification. This is likely not a valid IMEI number.''
        \<longleftrightarrow> length (strip_separators raw) = 15 \<and> list_all is_digit (strip_separators raw)
            \<and> \<not> luhnCheck (strip_separators raw))
   \<and> (valid (validateImeiFormat raw)
        \<longleftrightarrow> length (strip_separators raw) = 15 \<and> list_all is_digit (strip_separators raw)
            \<and> luhnCheck (strip_separators raw))"
proof -
  have clean: "cleanImei (validateImeiFormat raw) = strip_separators raw"
    by (simp add: validateImeiFormat_cases Let_def)
  have decimal: "read_nat (show_nat (length (strip_separators raw))) = length (strip_separators raw)"
    by (rule read_show_nat)
  show ?thesis
    unfolding clean decimal
    by (simp add: validateImeiFormat_cases Let_def strip_separators_def)
qed

theorem validateImeiFormat_rejections_witness:
  "length (strip_separators ''12345'') \<noteq> 15
   \<and> vmessage (validateImeiFormat ''12345'') = ''IMEI must be exactly 15 digits. Received 5 digits: \"12345\"''
   \<and> length (strip_separators ''1234-ABCD-5678-90'') \<noteq> 15
   \<and> vmessage (validateImeiFormat ''1234-ABCD-5678-90'')
       = ''IMEI must be exactly 15 digits. Received 14 digits: \"1234ABCD567890\"''
   \<and> length (strip_separators ''(490) 154-203.23751X'') = 15
   \<and> \<not> list_all is_digit (strip_separators ''(490) 154-203.23751X'')
   \<and> vmessage (validateImeiFormat ''(490) 154-203.23751X'')
       = ''IMEI must contain only digits. Received: \"49015420323751X\"''
   \<and> vmessage (validateImeiFormat ''49-015420-323751-9'')
       = ''IMEI failed Luhn checksum verification. This is likely not a valid IMEI number.''
   \<and> valid (validateImeiFormat ''49-015420-323751-8'')
   \<and> valid (validateImeiFormat (''49015420323751'' @ [CHR 0xA0] @ ''8''))
   \<and> cleanImei (validateImeiFormat (''49015420323751'' @ [CHR 0xA0] @ ''8'')) = ''490154203237518''"
proof -
  have s1: "strip_separators ''12345'' = ''12345''" by code_simp
  have s2: "strip_separators ''1234-ABCD-5678-90'' = ''1234ABCD567890''" by code_simp
  have s3: "strip_separators ''(490) 154-203.23751X'' = ''49015420323751X''" by code_simp
  have s4: "strip_separators ''49-015420-323751-9'' = ''490154203237519''" by code_simp
  have s5: "strip_separators ''49-015420-323751-8'' = ''490154203237518''" by code_simp
  have n1: "show_nat (length ''12345'') = ''5''" by code_simp
  have n2: "show_nat (length ''1234ABCD567890'') = ''14''" by code_simp
  have h1: "length (strip_separators ''12345'') \<noteq> 15" unfolding s1 by simp
  have h2: "length (strip_separators ''1234-ABCD-5678-90'') \<noteq> 15" unfolding s2 by simp
  have h3: "length (strip_separators ''(490) 154-203.23751X'') = 15
     \<and> \<not> list_all is_digit (strip_separators ''(490) 154-203.23751X'')"
    unfolding s3 by (simp add: is_digit_def)
  have h4: "length (strip_separators ''49-015420-323751-9'') = 15
     \<and> list_all is_digit (strip_separators ''49-015420-323751-9'')
     \<and> \<not> luhnCheck (strip_separators ''49-015420-323751-9'')"
    unfolding s4 by code_simp
  have h5: "length (strip_separators ''49-015420-323751-8'') = 15
     \<and> list_all is_digit (strip_separators ''49-015420-323751-8'')
     \<and> luhnCheck (strip_separators ''49-015420-323751-8'')"
    unfolding s5 by code_simp
  from validateImeiFormat_rejections [of "''12345''"] h1
  have "vmessage (validateImeiFormat ''12345'') =
          ''IMEI must be exactly 15 digits. Received '' @ show_nat (length (strip_separators ''12345''))
          @ '' digit'' @ (if length (strip_separators ''12345'') \<noteq> 1 then ''s'' else [])
          @ '': \"'' @ strip_separators ''12345'' @ ''\"''" by blast
  then have m1: "vmessage (validateImeiFormat ''12345'')
      = ''IMEI must be exactly 15 digits. Received 5 digits: \"12345\"''"
    unfolding s1 n1 by simp
  from validateImeiFormat_rejections [of "''1234-ABCD-5678-90''"] h2
  have "vmessage (validateImeiFormat ''1234-ABCD-5678-90'') =
          ''IMEI must be exactly 15 digits. Received ''
          @ show_nat (length (strip_separators ''1234-ABCD-5678-90''))
          @ '' digit'' @ (if length (strip_separators ''1234-ABCD-5678-90'') \<noteq> 1 then ''s'' else [])
          @ '': \"'' @ strip_separators ''1234-ABCD-5678-90'' @ ''\"''" by blast
  then have m2: "vmessage (validateImeiFormat ''1234-ABCD-5678-90'')
       = ''IMEI must be exactly 15 digits. Received 14 digits: \"1234ABCD567890\"''"
    unfolding s2 n2 by simp
  from validateImeiFormat_rejections [of "''(490) 154-203.23751X''"] h3
  have "vmessage (validateImeiFormat ''(490) 154-203.23751X'') =
          ''IMEI must contain only digits. Received: \"'' @ strip_separators ''(490) 154-203.23751X'' @ ''\"''"
    by blast
  then have m3: "vmessage (validateImeiFormat ''(490) 154-203.23751X'')
       = ''IMEI must contain only digits. Received: \"49015420323751X\"''"
    unfolding s3 by simp
  from validateImeiFormat_rejections [of "''49-015420-323751-9''"] h4
  have m4: "vmessage (validateImeiFormat ''49-015420-323751-9'')
       = ''IMEI failed Luhn checksum verification. This is likely not a valid IMEI number.''"
    by blast
  from validateImeiFormat_rejections [of "''49-015420-323751-8''"] h5
  have m5: "valid (validateImeiFormat ''49-015420-323751-8'')" by blast
  have s6: "strip_separators (''49015420323751'' @ [CHR 0xA0] @ ''8'') = ''490154203237518''"
    by code_simp
  have h6: "length (strip_separators (''49015420323751'' @ [CHR 0xA0] @ ''8'')) = 15
     \<and> list_all is_digit (strip_separators (''49015420323751'' @ [CHR 0xA0] @ ''8''))
     \<and> luhnCheck (strip_separators (''49015420323751'' @ [CHR 0xA0] @ ''8''))"
    unfolding s6 by code_simp
  from validateImeiFormat_rejections [of "''49015420323751'' @ [CHR 0xA0] @ ''8''"] h6
  have m6: "valid (validateImeiFormat (''49015420323751'' @ [CHR 0xA0] @ ''8''))" by blast
  from validateImeiFormat_rejections [of "''49015420323751'' @ [CHR 0xA0] @ ''8''"]
  have "cleanImei (validateImeiFormat (''49015420323751'' @ [CHR 0xA0] @ ''8''))
      = strip_separators (''49015420323751'' @ [CHR 0xA0] @ ''8'')"
    unfolding strip_separators_def by (elim conjE)
  then have m7: "cleanImei (validateImeiFormat (''49015420323751'' @ [CHR 0xA0] @ ''8''))
      = ''490154203237518''"
    unfolding s6 .
  from h1 m1 h2 m2 h3 m3 m4 m5 m6 m7 show ?thesis by blast
qed

section \<open>The catalog cache\<close>

lemma fetch_fresh:
  "tradeInCache st \<noteq> None \<Longrightarrow> now - tradeInCacheTime st < TRADEIN_CACHE_TTL \<Longrightarrow>
   fetchTradeInData now up st = \<lparr>returned = tradeInCache st, network_calls = 0, cache_after = st\<rparr>"
  by (simp add: fetchTradeInData_def)

lemma fetch_stale_fail:
  "tradeInCache st = None \<or> TRADEIN_CACHE_TTL \<le> now - tradeInCacheTime st \<Longrightarrow> fetch_fails up \<Longrightarrow>
   fetchTradeInData now up st = \<lparr>returned = tradeInCache st, network_calls = 1, cache_after = st\<rparr>"
  by (auto simp: fetchTradeInData_def fetch_fails_def split: fetch.splits option.splits)

lemma fetch_fail_frame: "fetch_fails up \<Longrightarrow> cache_after (fetchTradeInData now up st) = st"
  by (auto simp: fetchTradeInData_def fetch_fails_def split: fetch.splits option.splits)

text \<open>
  C4. \<open>fetchTradeInData\<close>: a cached snapshot younger than 15 minutes (900000 ms) is
  returned with no request issued and the cache left as it is. When the snapshot is absent
  or at least 15 minutes old exactly one request is issued; if it succeeds (a success
  status and a JSON body) the new document is returned, it replaces the snapshot and the
  cache time becomes the current reading; if it fails (the request is rejected, the status
  is not a success, or the body is not JSON) the previous snapshot, or null when there is
  none, is returned and the cache is unchanged.
\<close>

theorem fetchTradeInData_contract:
  "(tradeInCache st = Some snap \<and> now - tradeInCacheTime st < 15 * 60 * 1000 \<longrightarrow>
      fetchTradeInData now up st = \<lparr>returned = Some snap, network_calls = 0, cache_after = st\<rparr>)
   \<and> (tradeInCache st = None \<or> 15 * 60 * 1000 \<le> now - tradeInCacheTime st \<longrightarrow>
        network_calls (fetchTradeInData now up st) = 1
        \<and> (\<forall>hs d. up = Response hs (Some d) \<and> response_ok hs \<longrightarrow>
              returned (fetchTradeInData now up st) = Some d
              \<and> cache_after (fetchTradeInData now up st)
                  = \<lparr>tradeInCache = Some d, tradeInCacheTime = now\<rparr>)
        \<and> ((\<exists>e. up = Rejects e) \<or> (\<exists>hs body. up = Response hs body
                \<and> (\<not> response_ok hs \<or> body = None)) \<longrightarrow>
              returned (fetchTradeInData now up st) = tradeInCache st
              \<and> cache_after (fetchTradeInData now up st) = st))"
proof -
  have ttl: "TRADEIN_CACHE_TTL = 15 * 60 * 1000" by (simp add: TRADEIN_CACHE_TTL_def)
  have fresh: "tradeInCache st = Some snap \<and> now - tradeInCacheTime st < 15 * 60 * 1000 \<longrightarrow>
      fetchTradeInData now up st = \<lparr>returned = Some snap, network_calls = 0, cache_after = st\<rparr>"
    using fetch_fresh [of st now up] by (auto simp: ttl)
  have stale: "tradeInCache st = None \<or> 15 * 60 * 1000 \<le> now - tradeInCacheTime st \<longrightarrow>
        network_calls (fetchTradeInData now up st) = 1
        \<and> (\<forall>hs d. up = Response hs (Some d) \<and> response_ok hs \<longrightarrow>
              returned (fetchTradeInData now up st) = Some d
              \<and> cache_after (fetchTradeInData now up st)
                  = \<lparr>tradeInCache = Some d, tradeInCacheTime = now\<rparr>)
        \<and> ((\<exists>e. up = Rejects e) \<or> (\<exists>hs body. up = Response hs body
                \<and> (\<not> response_ok hs \<or> body = None)) \<longrightarrow>
              returned (fetchTradeInData now up st) = tradeInCache st
              \<and> cache_after (fetchTradeInData now up st) = st)"
    by (auto simp: fetchTradeInData_def ttl split: fetch.splits option.splits)
  from fresh stale show ?thesis by blast
qed

theorem fetchTradeInData_contract_witness:
  "fetchTradeInData 900999 (Response 200 (Some newer_catalog)) warm_cache
     = \<lparr>returned = Some sample_catalog, network_calls = 0, cache_after = warm_cache\<rparr>
   \<and> network_calls (fetchTradeInData 901000 (Response 200 (Some newer_catalog)) warm_cache) = 1
   \<and> returned (fetchTradeInData 901000 (Response 200 (Some newer_catalog)) warm_cache)
       = Some newer_catalog
   \<and> cache_after (fetchTradeInData 901000 (Response 200 (Some newer_catalog)) warm_cache)
       = \<lparr>tradeInCache = Some newer_catalog, tradeInCacheTime = 901000\<rparr>
   \<and> network_calls (fetchTradeInData 901000 (Response 503 None) warm_cache) = 1
   \<and> returned (fetchTradeInData 901000 (Response 503 None) warm_cache) = Some sample_catalog
   \<and> cache_after (fetchTradeInData 901000 (Response 503 None) warm_cache) = warm_cache
   \<and> network_calls (fetchTradeInData 5 (Rejects ''offline'') initial_cache) = 1
   \<and> returned (fetchTradeInData 5 (Rejects ''offline'') initial_cache) = None"
proof -
  have c: "tradeInCache warm_cache = Some sample_catalog" "tradeInCacheTime warm_cache = 1000"
    "tradeInCache initial_cache = None"
    by (simp_all add: warm_cache_def initial_cache_def)
  have ok: "response_ok 200" "\<not> response_ok 503" by (simp_all add: response_ok_def)
  have fresh: "tradeInCache warm_cache = Some sample_catalog
      \<and> 900999 - tradeInCacheTime warm_cache < 15 * 60 * 1000" by (simp add: c)
  have stale: "tradeInCache warm_cache = None
      \<or> 15 * 60 * 1000 \<le> 901000 - tradeInCacheTime warm_cache" by (simp add: c)
  have absent: "tradeInCache initial_cache = None
      \<or> 15 * 60 * 1000 \<le> 5 - tradeInCacheTime initial_cache" by (simp add: c)
  from fetchTradeInData_contract [of warm_cache sample_catalog 900999 "Response 200 (Some newer_catalog)"] fresh
  have w1: "fetchTradeInData 900999 (Response 200 (Some newer_catalog)) warm_cache
     = \<lparr>returned = Some sample_catalog, network_calls = 0, cache_after = warm_cache\<rparr>" by blast
  from fetchTradeInData_contract [of warm_cache sample_catalog 901000 "Response 200 (Some newer_catalog)"] stale ok
  have w2: "network_calls (fetchTradeInData 901000 (Response 200 (Some newer_catalog)) warm_cache) = 1
   \<and> returned (fetchTradeInData 901000 (Response 200 (Some newer_catalog)) warm_cache)
       = Some newer_catalog
   \<and> cache_after (fetchTradeInData 901000 (Response 200 (Some newer_catalog)) warm_cache)
       = \<lparr>tradeInCache = Some newer_catalog, tradeInCacheTime = 901000\<rparr>" by blast
  from fetchTradeInData_contract [of warm_cache sample_catalog 901000 "Response 503 None"] stale ok
  have w3: "network_calls (fetchTradeInData 901000 (Response 503 None) warm_cache) = 1
   \<and> returned (fetchTradeInData 901000 (Response 503 None) warm_cache) = tradeInCache warm_cache
   \<and> cache_after (fetchTradeInData 901000 (Response 503 None) warm_cache) = warm_cache" by blast
  from fetchTradeInData_contract [of initial_cache sample_catalog 5 "Rejects ''offline''"] absent
  have w4: "network_calls (fetchTradeInData 5 (Rejects ''offline'') initial_cache) = 1
   \<and> returned (fetchTradeInData 5 (Rejects ''offline'') initial_cache) = tradeInCache initial_cache"
    by blast
  from w1 w2 w3 w4 show ?thesis by (simp add: c)
qed

text \<open>
  C10. A failed fetch leaves the cached snapshot and the cache time as they were.
  Consequently, when the snapshot is absent, or stale at a moment \<open>t0\<close>, every later call
  whose fetch fails issues a request of its own and leaves the cache unchanged: a run of
  such calls issues as many requests as there are calls.
\<close>

theorem failed_refresh_not_cached:
  "(fetch_fails up \<longrightarrow>
      tradeInCache (cache_after (fetchTradeInData now up st)) = tradeInCache st
      \<and> tradeInCacheTime (cache_after (fetchTradeInData now up st)) = tradeInCacheTime st)
   \<and> ((tradeInCache st = None \<or> TRADEIN_CACHE_TTL \<le> t0 - tradeInCacheTime st)
        \<and> (\<forall>(now', up') \<in> set calls. t0 \<le> now' \<and> fetch_fails up') \<longrightarrow>
        fetch_calls calls st = (length calls, st))"
proof -
  have frame: "fetch_fails up \<longrightarrow>
      tradeInCache (cache_after (fetchTradeInData now up st)) = tradeInCache st
      \<and> tradeInCacheTime (cache_after (fetchTradeInData now up st)) = tradeInCacheTime st"
    by (simp add: fetch_fail_frame)
  have run: "fetch_calls calls st = (length calls, st)"
    if stale: "tradeInCache st = None \<or> TRADEIN_CACHE_TTL \<le> t0 - tradeInCacheTime st"
    and calls: "\<forall>(now', up') \<in> set calls. t0 \<le> now' \<and> fetch_fails up'"
    using calls
  proof (induction calls)
    case Nil
    then show ?case by simp
  next
    case (Cons c calls)
    obtain now' up' where c: "c = (now', up')" by (cases c)
    from Cons.prems c have late: "t0 \<le> now'" and fails: "fetch_fails up'" by simp_all
    from stale late have "tradeInCache st = None \<or> TRADEIN_CACHE_TTL \<le> now' - tradeInCacheTime st"
      by auto
    then have one: "fetchTradeInData now' up' st
        = \<lparr>returned = tradeInCache st, network_calls = 1, cache_after = st\<rparr>"
      using fails by (rule fetch_stale_fail)
    from Cons.prems have "\<forall>(now', up') \<in> set calls. t0 \<le> now' \<and> fetch_fails up'" by simp
    then have "fetch_calls calls st = (length calls, st)" by (rule Cons.IH)
    then show ?case by (simp add: c one)
  qed
  from frame run show ?thesis by blast
qed

theorem failed_refresh_not_cached_witness:
  "fetch_fails (Response 503 None)
   \<and> cache_after (fetchTradeInData 901000 (Response 503 None) warm_cache) = warm_cache
   \<and> fetch_calls [(901000, Rejects ''offline''), (901001, Response 503 None),
                   (901002, Response 200 None)] warm_cache = (3, warm_cache)
   \<and> fetch_calls [(901000, Rejects ''offline''), (901001, Response 503 None),
                   (901002, Response 200 (Some newer_catalog)), (901003, Rejects ''offline'')]
        warm_cache = (3, \<lparr>tradeInCache = Some newer_catalog, tradeInCacheTime = 901002\<rparr>)"
proof -
  have f: "fetch_fails (Response 503 None)" "fetch_fails (Rejects ''offline'')"
    "fetch_fails (Response 200 None)"
    by (simp_all add: fetch_fails_def)
  have stale: "tradeInCache warm_cache = None
      \<or> TRADEIN_CACHE_TTL \<le> 901000 - tradeInCacheTime warm_cache"
    by (simp add: warm_cache_def TRADEIN_CACHE_TTL_def)
  have each: "\<forall>(now', up') \<in> set [(901000, Rejects ''offline''), (901001, Response 503 None),
       (901002, Response 200 None)]. (901000::int) \<le> now' \<and> fetch_fails up'"
    by (simp add: f)
  from failed_refresh_not_cached [of "Response 503 None" 901000 warm_cache 901000 "[]"] f
  have w1: "cache_after (fetchTradeInData 901000 (Response 503 None) warm_cache) = warm_cache"
    by simp
  from failed_refresh_not_cached [of "Response 503 None" 901000 warm_cache 901000
      "[(901000, Rejects ''offline''), (901001, Response 503 None), (901002, Response 200 None)]"]
    stale each
  have w2: "fetch_calls [(901000, Rejects ''offline''), (901001, Response 503 None),
                   (901002, Response 200 None)] warm_cache = (3, warm_cache)"
    by simp
  have w3: "fetch_calls [(901000, Rejects ''offline''), (901001, Response 503 None),
                   (901002, Response 200 (Some newer_catalog)), (901003, Rejects ''offline'')]
        warm_cache = (3, \<lparr>tradeInCache = Some newer_catalog, tradeInCacheTime = 901002\<rparr>)"
    by (simp add: fetchTradeInData_def warm_cache_def TRADEIN_CACHE_TTL_def response_ok_def)
  from f w1 w2 w3 show ?thesis by simp
qed

section \<open>Resolver and gateway: auxiliary facts\<close>

lemma find_first:
  "find P xs = Some x \<longleftrightarrow> (\<exists>pre post. xs = pre @ x # post \<and> P x \<and> (\<forall>y\<in>set pre. \<not> P y))"
proof (induction xs)
  case Nil
  then show ?case by simp
next
  case (Cons a xs)
  show ?case
  proof (cases "P a")
    case True
    have "(\<exists>pre post. a # xs = pre @ x # post \<and> P x \<and> (\<forall>y\<in>set pre. \<not> P y)) \<longleftrightarrow> a = x"
    proof
      assume "\<exists>pre post. a # xs = pre @ x # post \<and> P x \<and> (\<forall>y\<in>set pre. \<not> P y)"
      then obtain pre post where e: "a # xs = pre @ x # post" and n: "\<forall>y\<in>set pre. \<not> P y" by blast
      show "a = x"
      proof (cases pre)
        case Nil
        with e show ?thesis by simp
      next
        case (Cons b bs)
        with e have "b = a" by simp
        with Cons n True show ?thesis by simp
      qed
    next
      assume "a = x"
      with True have "a # xs = [] @ x # xs \<and> P x \<and> (\<forall>y\<in>set []. \<not> P y)" by simp
      then show "\<exists>pre post. a # xs = pre @ x # post \<and> P x \<and> (\<forall>y\<in>set pre. \<not> P y)" by blast
    qed
    with True show ?thesis by simp
  next
    case False
    have "(\<exists>pre post. a # xs = pre @ x # post \<and> P x \<and> (\<forall>y\<in>set pre. \<not> P y))
       \<longleftrightarrow> (\<exists>pre post. xs = pre @ x # post \<and> P x \<and> (\<forall>y\<in>set pre. \<not> P y))"
    proof
      assume "\<exists>pre post. a # xs = pre @ x # post \<and> P x \<and> (\<forall>y\<in>set pre. \<not> P y)"
      then obtain pre post where e: "a # xs = pre @ x # post" and px: "P x"
        and n: "\<forall>y\<in>set pre. \<not> P y" by blast
      show "\<exists>pre post. xs = pre @ x # post \<and> P x \<and> (\<forall>y\<in>set pre. \<not> P y)"
      proof (cases pre)
        case Nil
        with e px False show ?thesis by simp
      next
        case (Cons b bs)
        with e have "xs = bs @ x # post" by simp
        moreover from Cons n have "\<forall>y\<in>set bs. \<not> P y" by simp
        ultimately show ?thesis using px by blast
      qed
    next
      assume "\<exists>pre post. xs = pre @ x # post \<and> P x \<and> (\<forall>y\<in>set pre. \<not> P y)"
      then obtain pre post where e: "xs = pre @ x # post" and px: "P x"
        and n: "\<forall>y\<in>set pre. \<not> P y" by blast
      from e have "a # xs = (a # pre) @ x # post" by simp
      moreover from n False have "\<forall>y\<in>set (a # pre). \<not> P y" by simp
      ultimately show "\<exists>pre post. a # xs = pre @ x # post \<and> P x \<and> (\<forall>y\<in>set pre. \<not> P y)"
        using px by blast
    qed
    with False Cons.IH show ?thesis by simp
  qed
qed

lemma find_mem: "find P xs = Some x \<Longrightarrow> x \<in> set xs \<and> P x"
  by (auto simp: find_first)

lemma find_none: "find P xs = None \<longleftrightarrow> (\<forall>x\<in>set xs. \<not> P x)"
  by (auto simp: find_None_iff)

lemma first_device_mem: "first_device fam = Some sd \<Longrightarrow> sd \<in> set fam"
  by (auto simp: first_device_def split: list.splits)

lemma spec_selected_variant_mem: "spec_selected_variant cap fam = Some sd \<Longrightarrow> sd \<in> set fam"
  by (auto simp: spec_selected_variant_def split: if_splits option.splits
      dest: find_mem first_device_mem)

lemma gtv_of_success:
  assumes "getTradeInValue_of dat args = Inr r" and "tv_device r = Some dev"
  shows "\<exists>d pc mk mdl sd.
           dat = Some d \<and> phone_category d = Some pc
           \<and> find (\<lambda>m. toLowerCase (make_name m) = toLowerCase (a_brand args)) (makes pc) = Some mk
           \<and> find (\<lambda>m. fuzzy_match (model_name m) (a_model args)) (models mk) = Some mdl
           \<and> spec_selected_variant (or_str (a_capacity args) []) (productFamily mdl) = Some sd
           \<and> tv_success r
           \<and> dev = \<lparr>d_brand = a_brand args, d_model = model_name mdl,
                  d_capacity = capacity sd, d_image = image sd,
                  base_value = modelPrice sd,
                  condition_value = Math_round (modelPrice sd * condition_multiplier (a_good_condition args)),
                  available_capacities = map (\<lambda>pf. (capacity pf, modelPrice pf)) (productFamily mdl)\<rparr>"
  using assms
  unfolding getTradeInValue_of_def Let_def spec_selected_variant_def
  by (auto split: option.splits if_splits)

lemma callHylaGateway_params: "callHylaGateway p reply = callHylaGateway q reply"
  by (simp add: callHylaGateway_def callHylaGateway_try_def split: fetch.splits)

lemma callHylaGateway_Rejects:
  "callHylaGateway p (Rejects e) =
     \<lparr>success = False, data = None, status = 0, hylaCode = None, hylaMessage = [],
      message = ''Hyla API unreachable: '' @ e\<rparr>"
  by (simp add: callHylaGateway_def callHylaGateway_try_def)

lemma callHylaGateway_Response:
  "hylaCode (callHylaGateway p (Response hs body)) = (case body of None \<Rightarrow> None | Some b \<Rightarrow> body_code b)"
  "status (callHylaGateway p (Response hs body)) = hs"
  "data (callHylaGateway p (Response hs body)) = body"
  "success (callHylaGateway p (Response hs body)) \<longleftrightarrow>
     response_ok hs \<and> (\<not> truthy_code (case body of None \<Rightarrow> None | Some b \<Rightarrow> body_code b)
        \<or> code_lt (case body of None \<Rightarrow> None | Some b \<Rightarrow> body_code b) 4000)"
  by (simp_all add: callHylaGateway_def callHylaGateway_try_def Let_def)




lemma get_tradein_value_disclosed:
  assumes "fst (get_tradein_value env st g) = VerifiedValue dev"
  shows "\<exists>r p. getTradeInValue_of
            (returned (fetchTradeInData (clock2 env) (catalog2 env)
               (cache_after (fetchTradeInData (clock1 env) (catalog1 env) st))))
            \<lparr>a_brand = g_brand g, a_model = g_model g, a_capacity = Some (or_str (g_capacity g) []),
             a_good_condition = g_good_condition g\<rparr> = Inr r
          \<and> tv_device r = Some dev \<and> tv_success r
          \<and> gate_outcome (callHylaGateway p (gateway env)) = Verified
          \<and> valid (validateImeiFormat (g_imei g))"
  using assms
  unfolding get_tradein_value_def get_tradein_value_try_def getTradeInValue_def Let_def
  by (auto split: if_splits prod.splits sum.splits option.splits VerificationOutcome.splits)

lemma validate_imei_shown:
  assumes "fst (validate_imei env st a) = ValidImeiReply code nt (ValueShown dev base v)"
  shows "\<exists>t p. matchImeiToTradeIn_of
            (returned (fetchTradeInData (clock2 env) (catalog2 env)
               (snd (find_catalog_entry env st a))))
            \<lparr>manufacturer = Some (identifiedBrand env st a),
             di_model = Some (identifiedModel env st a),
             modelName = Some (identifiedModel env st a),
             di_brand = Some (identifiedBrand env st a), di_capacity = None\<rparr> = Inr t
          \<and> m_device t = Some dev \<and> matched t \<and> base = tradeInValue t
          \<and> v = map_option (\<lambda>x. Math_round (x * condition_multiplier (v_good_condition a))) (tradeInValue t)
          \<and> success (callHylaGateway p (gateway env))
          \<and> v_check_tradein a \<noteq> Some False
          \<and> valid (validateImeiFormat (v_imei a))"
  using assms
  unfolding validate_imei_def validate_imei_try_def matchImeiToTradeIn_def Let_def hylaVerified_def
  by (auto split: if_splits prod.splits sum.splits option.splits)

section \<open>The device resolver\<close>


lemma or_str_Some_self: "or_str (Some s) (or_str (Some s) []) = s"
  by simp

lemma match_first_variant:
  assumes "matchImeiToTradeIn_of dat
             \<lparr>manufacturer = Some b, di_model = Some m, modelName = Some m, di_brand = Some b,
              di_capacity = None\<rparr> = Inr t"
    and "m_device t = Some dev"
  shows "\<exists>d pc mk mdl sd.
           dat = Some d \<and> phone_category d = Some pc
           \<and> find (\<lambda>x. fuzzy_match (make_name x) b) (makes pc) = Some mk
           \<and> find (\<lambda>x. fuzzy_match (model_name x) m) (models mk) = Some mdl
           \<and> first_device (productFamily mdl) = Some sd
           \<and> matched t \<and> tradeInValue t = Some (modelPrice sd)
           \<and> md_brand dev = make_name mk \<and> md_model dev = model_name mdl
           \<and> md_capacity dev = capacity sd \<and> md_modelCode dev = modelCode sd"
  using assms
  unfolding matchImeiToTradeIn_of_def Let_def not_matched_def
  by (auto split: option.splits if_splits)

lemma find_model_code_Some:
  "find_model_code ml mdls = Some c \<Longrightarrow>
   \<exists>mdl\<in>set mdls. str_includes (toLowerCase (model_name mdl)) ml
      \<and> (\<exists>pf rest. productFamily mdl = pf # rest \<and> c = modelCode pf)"
  by (induction mdls) (auto split: if_splits list.splits)





lemma join_contains: "x \<in> set xs \<Longrightarrow> \<exists>a b. join sep xs = a @ x @ b"
proof (induction sep xs rule: join.induct)
  case (1 sep)
  then show ?case by simp
next
  case (2 sep y)
  then have "join sep [y] = [] @ x @ []" by simp
  then show ?case by blast
next
  case (3 sep y z zs)
  show ?case
  proof (cases "x = y")
    case True
    then have "join sep (y # z # zs) = [] @ x @ (sep @ join sep (z # zs))" by simp
    then show ?thesis by blast
  next
    case False
    with 3 obtain a b where "join sep (z # zs) = a @ x @ b" by auto
    then have "join sep (y # z # zs) = (y @ sep @ a) @ x @ b" by simp
    then show ?thesis by blast
  qed
qed

lemma message_carries:
  assumes "x \<in> set xs"
  shows "str_includes (pre @ join sep xs @ post) x"
proof -
  from join_contains [OF assms] obtain a b where "join sep xs = a @ x @ b" by blast
  then have "pre @ join sep xs @ post = (pre @ a) @ x @ (b @ post)" by simp
  then show ?thesis unfolding str_includes_def sublist_def by blast
qed

text \<open>
  C8 (as amended). A miss is a result, not an exception. On a brand miss the message lists
  every brand of the phone category. On a model miss it lists the first ten models of the
  matched brand, followed by an ellipsis: all of them when the brand has at most ten.
\<close>

theorem resolver_miss_lists_alternatives:
  "phone_category d = Some pc \<longrightarrow>
     ((\<forall>m\<in>set (makes pc). toLowerCase (make_name m) \<noteq> toLowerCase (a_brand args)) \<longrightarrow>
        getTradeInValue_of (Some d) args =
          Inr \<lparr>tv_success = False, tv_device = None,
               tv_message = ''Brand \"'' @ a_brand args @ ''\" not found. Available brands: ''
                 @ join '', '' (map make_name (makes pc))\<rparr>
        \<and> (\<forall>m\<in>set (makes pc).
              str_includes (tv_message (projr (getTradeInValue_of (Some d) args))) (make_name m)))
     \<and> (\<forall>mk. find (\<lambda>m. toLowerCase (make_name m) = toLowerCase (a_brand args)) (makes pc) = Some mk
            \<and> (\<forall>m\<in>set (models mk). \<not> fuzzy_match (model_name m) (a_model args)) \<longrightarrow>
          getTradeInValue_of (Some d) args =
            Inr \<lparr>tv_success = False, tv_device = None,
                 tv_message = ''Model \"'' @ a_model args @ ''\" not found for '' @ a_brand args
                   @ ''. Available models: ''
                   @ join '', '' (map model_name (take 10 (models mk))) @ ''...''\<rparr>
          \<and> (\<forall>m\<in>set (take 10 (models mk)).
                str_includes (tv_message (projr (getTradeInValue_of (Some d) args))) (model_name m))
          \<and> (length (models mk) \<le> 10 \<longrightarrow> take 10 (models mk) = models mk))"
proof (intro impI conjI allI)
  assume pc: "phone_category d = Some pc"
  {
    assume "\<forall>m\<in>set (makes pc). toLowerCase (make_name m) \<noteq> toLowerCase (a_brand args)"
    then have none: "find (\<lambda>m. toLowerCase (make_name m) = toLowerCase (a_brand args)) (makes pc) = None"
      by (simp add: find_none)
    with pc show r: "getTradeInValue_of (Some d) args =
          Inr \<lparr>tv_success = False, tv_device = None,
               tv_message = ''Brand \"'' @ a_brand args @ ''\" not found. Available brands: ''
                 @ join '', '' (map make_name (makes pc))\<rparr>"
      by (simp add: getTradeInValue_of_def)
    show "\<forall>m\<in>set (makes pc).
              str_includes (tv_message (projr (getTradeInValue_of (Some d) args))) (make_name m)"
    proof
      fix m assume "m \<in> set (makes pc)"
      then have "make_name m \<in> set (map make_name (makes pc))" by simp
      from message_carries [OF this, of "''Brand \"'' @ a_brand args @ ''\" not found. Available brands: ''" "'', ''" "[]"]
      show "str_includes (tv_message (projr (getTradeInValue_of (Some d) args))) (make_name m)"
        unfolding r by simp
    qed
  }
  fix mk
  assume h: "find (\<lambda>m. toLowerCase (make_name m) = toLowerCase (a_brand args)) (makes pc) = Some mk
            \<and> (\<forall>m\<in>set (models mk). \<not> fuzzy_match (model_name m) (a_model args))"
  then have mk: "find (\<lambda>m. toLowerCase (make_name m) = toLowerCase (a_brand args)) (makes pc) = Some mk"
    and none: "find (\<lambda>m. fuzzy_match (model_name m) (a_model args)) (models mk) = None"
    by (simp_all add: find_none)
  from pc mk none show r: "getTradeInValue_of (Some d) args =
            Inr \<lparr>tv_success = False, tv_device = None,
                 tv_message = ''Model \"'' @ a_model args @ ''\" not found for '' @ a_brand args
                   @ ''. Available models: ''
                   @ join '', '' (map model_name (take 10 (models mk))) @ ''...''\<rparr>"
    by (simp add: getTradeInValue_of_def)
  show "\<forall>m\<in>set (take 10 (models mk)).
                str_includes (tv_message (projr (getTradeInValue_of (Some d) args))) (model_name m)"
  proof
    fix m assume "m \<in> set (take 10 (models mk))"
    then have "model_name m \<in> set (map model_name (take 10 (models mk)))" by simp
    from message_carries [OF this, of "''Model \"'' @ a_model args @ ''\" not found for '' @ a_brand args
                   @ ''. Available models: ''" "'', ''" "''...''"]
    show "str_includes (tv_message (projr (getTradeInValue_of (Some d) args))) (model_name m)"
      unfolding r by simp
  qed
  show "length (models mk) \<le> 10 \<Longrightarrow> take 10 (models mk) = models mk" by simp
qed

theorem resolver_miss_lists_alternatives_witness:
  "phone_category sample_catalog
     = Some \<lparr>category = ''phone'', makes = [apple_make, samsung_make, google_make]\<rparr>
   \<and> getTradeInValue_of (Some sample_catalog)
        \<lparr>a_brand = ''Nokia'', a_model = ''3310'', a_capacity = None, a_good_condition = None\<rparr>
      = Inr \<lparr>tv_success = False, tv_device = None,
             tv_message = ''Brand \"Nokia\" not found. Available brands: Apple, Samsung, Google''\<rparr>
   \<and> getTradeInValue_of (Some sample_catalog)
        \<lparr>a_brand = ''apple'', a_model = ''Galaxy'', a_capacity = None, a_good_condition = None\<rparr>
      = Inr \<lparr>tv_success = False, tv_device = None,
             tv_message = ''Model \"Galaxy\" not found for apple. Available models: iPhone 15 Pro Max, iPhone 15...''\<rparr>"
proof -
  let ?pc = "\<lparr>category = ''phone'', makes = [apple_make, samsung_make, google_make]\<rparr>"
  let ?q1 = "\<lparr>a_brand = ''Nokia'', a_model = ''3310'', a_capacity = None, a_good_condition = None\<rparr>"
  let ?q2 = "\<lparr>a_brand = ''apple'', a_model = ''Galaxy'', a_capacity = None, a_good_condition = None\<rparr>"
  have pc: "phone_category sample_catalog = Some ?pc" by code_simp
  have h1: "\<forall>m\<in>set (makes ?pc). toLowerCase (make_name m) \<noteq> toLowerCase (a_brand ?q1)"
    by code_simp
  have h2: "find (\<lambda>m. toLowerCase (make_name m) = toLowerCase (a_brand ?q2)) (makes ?pc) = Some apple_make
            \<and> (\<forall>m\<in>set (models apple_make). \<not> fuzzy_match (model_name m) (a_model ?q2))"
    by code_simp
  have j1: "''Brand \"'' @ a_brand ?q1 @ ''\" not found. Available brands: ''
                 @ join '', '' (map make_name (makes ?pc))
      = ''Brand \"Nokia\" not found. Available brands: Apple, Samsung, Google''" by code_simp
  have j2: "''Model \"'' @ a_model ?q2 @ ''\" not found for '' @ a_brand ?q2
                   @ ''. Available models: ''
                   @ join '', '' (map model_name (take 10 (models apple_make))) @ ''...''
      = ''Model \"Galaxy\" not found for apple. Available models: iPhone 15 Pro Max, iPhone 15...''"
    by code_simp
  from resolver_miss_lists_alternatives [of sample_catalog ?pc ?q1] pc h1
  have w1: "getTradeInValue_of (Some sample_catalog) ?q1 =
          Inr \<lparr>tv_success = False, tv_device = None,
               tv_message = ''Brand \"'' @ a_brand ?q1 @ ''\" not found. Available brands: ''
                 @ join '', '' (map make_name (makes ?pc))\<rparr>"
    by blast
  from resolver_miss_lists_alternatives [of sample_catalog ?pc ?q2] pc h2
  have w2: "getTradeInValue_of (Some sample_catalog) ?q2 =
            Inr \<lparr>tv_success = False, tv_device = None,
                 tv_message = ''Model \"'' @ a_model ?q2 @ ''\" not found for '' @ a_brand ?q2
                   @ ''. Available models: ''
                   @ join '', '' (map model_name (take 10 (models apple_make))) @ ''...''\<rparr>"
    by blast
  from pc w1 w2 show ?thesis unfolding j1 j2 by simp
qed

text \<open>
  The claim as written fails on a model miss for a brand with more than ten models: "Pixel
  Fold" is a valid model of the matched brand and the result does not carry it.
\<close>

theorem model_miss_list_counterexample:
  "List.member (map model_name (models google_make)) ''Pixel Fold''
   \<and> getTradeInValue_of (Some sample_catalog)
        \<lparr>a_brand = ''Google'', a_model = ''Nexus'', a_capacity = None, a_good_condition = None\<rparr>
      = Inr \<lparr>tv_success = False, tv_device = None,
             tv_message = ''Model \"Nexus\" not found for Google. Available models: Pixel 9 Pro, Pixel 9, Pixel 8 Pro, Pixel 8, Pixel 7 Pro, Pixel 7, Pixel 6 Pro, Pixel 6, Pixel 5, Pixel 4...''\<rparr>
   \<and> \<not> str_includes (tv_message (projr (getTradeInValue_of (Some sample_catalog)
        \<lparr>a_brand = ''Google'', a_model = ''Nexus'', a_capacity = None, a_good_condition = None\<rparr>)))
        ''Pixel Fold''"
  by code_simp

section \<open>The disclosed value\<close>

lemma Math_round_nearest: "\<bar>of_int (Math_round x) - x\<bar> \<le> 1 / 2"
  unfolding Math_round_def by linarith

lemma condition_multiplier_cases:
  "condition_multiplier g = (if g = Some False then 1 / 2 else 1)"
  by (simp add: condition_multiplier_def)

text \<open>
  C6. Whenever a tool discloses a value, the catalog document that the resolver reads (the
  cached snapshot, or the one just fetched) has a phone category in which the resolver
  finds the make and the model, and the disclosed value is the price of the selected
  variant of that model times the condition multiplier (1 when the condition is good or
  not given, 1/2 when it is given as not good), rounded to the nearest whole unit. For
  \<open>get_tradein_value\<close> the make is the first whose name equals the brand, the model the
  first that matches the query, and the variant the one the specification selects for the
  requested capacity; for \<open>validate_imei\<close> make and model are the first that match the
  identified brand and model, and the variant is the first listed. The same holds of the
  resolver on any catalog document. A base price of 800 gives 800 in good and 400 in bad
  condition.
\<close>

theorem disclosed_value_is_rounded_price:
  "(\<forall>dev. fst (get_tradein_value env st g) = VerifiedValue dev \<longrightarrow>
       (\<exists>d pc mk mdl sd.
          returned (fetchTradeInData (clock2 env) (catalog2 env)
            (cache_after (fetchTradeInData (clock1 env) (catalog1 env) st))) = Some d
          \<and> phone_category d = Some pc
          \<and> find (\<lambda>m. toLowerCase (make_name m) = toLowerCase (g_brand g)) (makes pc) = Some mk
          \<and> find (\<lambda>m. fuzzy_match (model_name m) (g_model g)) (models mk) = Some mdl
          \<and> spec_selected_variant (or_str (g_capacity g) []) (productFamily mdl) = Some sd
          \<and> d_model dev = model_name mdl \<and> d_capacity dev = capacity sd
          \<and> base_value dev = modelPrice sd
          \<and> condition_value dev
              = Math_round (modelPrice sd * (if g_good_condition g = Some False then 1 / 2 else 1))
          \<and> \<bar>of_int (condition_value dev)
               - modelPrice sd * (if g_good_condition g = Some False then 1 / 2 else 1)\<bar> \<le> 1 / 2))
   \<and> (\<forall>code nt dev base v.
         fst (validate_imei env st a) = ValidImeiReply code nt (ValueShown dev base v) \<longrightarrow>
         (\<exists>d pc mk mdl sd.
            returned (fetchTradeInData (clock2 env) (catalog2 env)
              (snd (find_catalog_entry env st a))) = Some d
            \<and> phone_category d = Some pc
            \<and> find (\<lambda>m. fuzzy_match (make_name m) (identifiedBrand env st a)) (makes pc) = Some mk
            \<and> find (\<lambda>m. fuzzy_match (model_name m) (identifiedModel env st a)) (models mk) = Some mdl
            \<and> first_device (productFamily mdl) = Some sd
            \<and> md_model dev = model_name mdl \<and> md_capacity dev = capacity sd
            \<and> base = Some (modelPrice sd)
            \<and> v = Some (Math_round
                  (modelPrice sd * (if v_good_condition a = Some False then 1 / 2 else 1)))))
   \<and> (\<forall>r dev. getTradeInValue_of dat args = Inr r \<and> tv_device r = Some dev \<longrightarrow>
         (\<exists>d pc mk mdl sd. dat = Some d \<and> phone_category d = Some pc
            \<and> find (\<lambda>m. toLowerCase (make_name m) = toLowerCase (a_brand args)) (makes pc) = Some mk
            \<and> find (\<lambda>m. fuzzy_match (model_name m) (a_model args)) (models mk) = Some mdl
            \<and> spec_selected_variant (or_str (a_capacity args) []) (productFamily mdl) = Some sd
            \<and> sd \<in> set (productFamily mdl)
            \<and> d_capacity dev = capacity sd \<and> base_value dev = modelPrice sd
            \<and> condition_value dev
                = Math_round (modelPrice sd * (if a_good_condition args = Some False then 1 / 2 else 1))))
   \<and> Math_round (800 * 1) = 800 \<and> Math_round (800 * (1 / 2)) = 400"
proof (intro conjI allI impI)
  fix dev
  assume "fst (get_tradein_value env st g) = VerifiedValue dev"
  from get_tradein_value_disclosed [OF this] obtain r where
    r: "getTradeInValue_of
          (returned (fetchTradeInData (clock2 env) (catalog2 env)
             (cache_after (fetchTradeInData (clock1 env) (catalog1 env) st))))
          \<lparr>a_brand = g_brand g, a_model = g_model g,
           a_capacity = Some (or_str (g_capacity g) []), a_good_condition = g_good_condition g\<rparr> = Inr r"
      "tv_device r = Some dev"
    by blast
  from gtv_of_success [OF r] obtain d pc mk mdl sd where
    f: "returned (fetchTradeInData (clock2 env) (catalog2 env)
          (cache_after (fetchTradeInData (clock1 env) (catalog1 env) st))) = Some d"
      "phone_category d = Some pc"
      "find (\<lambda>m. toLowerCase (make_name m) = toLowerCase (g_brand g)) (makes pc) = Some mk"
      "find (\<lambda>m. fuzzy_match (model_name m) (g_model g)) (models mk) = Some mdl"
      "spec_selected_variant (or_str (g_capacity g) []) (productFamily mdl) = Some sd"
    and dev: "dev = \<lparr>d_brand = g_brand g, d_model = model_name mdl,
                  d_capacity = capacity sd, d_image = image sd,
                  base_value = modelPrice sd,
                  condition_value = Math_round (modelPrice sd * condition_multiplier (g_good_condition g)),
                  available_capacities = map (\<lambda>pf. (capacity pf, modelPrice pf)) (productFamily mdl)\<rparr>"
    by auto
  from dev have v: "condition_value dev
      = Math_round (modelPrice sd * (if g_good_condition g = Some False then 1 / 2 else 1))"
    by (simp add: condition_multiplier_cases)
  have n: "\<bar>of_int (condition_value dev)
      - modelPrice sd * (if g_good_condition g = Some False then 1 / 2 else 1)\<bar> \<le> 1 / 2"
    unfolding v by (rule Math_round_nearest)
  from dev have "d_model dev = model_name mdl" "d_capacity dev = capacity sd"
    "base_value dev = modelPrice sd" by simp_all
  with f v n show "\<exists>d pc mk mdl sd.
          returned (fetchTradeInData (clock2 env) (catalog2 env)
            (cache_after (fetchTradeInData (clock1 env) (catalog1 env) st))) = Some d
          \<and> phone_category d = Some pc
          \<and> find (\<lambda>m. toLowerCase (make_name m) = toLowerCase (g_brand g)) (makes pc) = Some mk
          \<and> find (\<lambda>m. fuzzy_match (model_name m) (g_model g)) (models mk) = Some mdl
          \<and> spec_selected_variant (or_str (g_capacity g) []) (productFamily mdl) = Some sd
          \<and> d_model dev = model_name mdl \<and> d_capacity dev = capacity sd
          \<and> base_value dev = modelPrice sd
          \<and> condition_value dev
              = Math_round (modelPrice sd * (if g_good_condition g = Some False then 1 / 2 else 1))
          \<and> \<bar>of_int (condition_value dev)
               - modelPrice sd * (if g_good_condition g = Some False then 1 / 2 else 1)\<bar> \<le> 1 / 2"
    by blast
next
  fix code nt dev base v
  assume "fst (validate_imei env st a) = ValidImeiReply code nt (ValueShown dev base v)"
  from validate_imei_shown [OF this] obtain t where
    t: "matchImeiToTradeIn_of
          (returned (fetchTradeInData (clock2 env) (catalog2 env)
             (snd (find_catalog_entry env st a))))
          \<lparr>manufacturer = Some (identifiedBrand env st a),
           di_model = Some (identifiedModel env st a),
           modelName = Some (identifiedModel env st a),
           di_brand = Some (identifiedBrand env st a), di_capacity = None\<rparr> = Inr t"
      "m_device t = Some dev"
    and b: "base = tradeInValue t"
    and v: "v = map_option (\<lambda>x. Math_round (x * condition_multiplier (v_good_condition a))) (tradeInValue t)"
    by blast
  from match_first_variant [OF t] obtain d pc mk mdl sd where
    f: "returned (fetchTradeInData (clock2 env) (catalog2 env)
          (snd (find_catalog_entry env st a))) = Some d"
      "phone_category d = Some pc"
      "find (\<lambda>m. fuzzy_match (make_name m) (identifiedBrand env st a)) (makes pc) = Some mk"
      "find (\<lambda>m. fuzzy_match (model_name m) (identifiedModel env st a)) (models mk) = Some mdl"
      "first_device (productFamily mdl) = Some sd"
      "tradeInValue t = Some (modelPrice sd)"
      "md_model dev = model_name mdl" "md_capacity dev = capacity sd"
    by blast
  from b v f(6) have "base = Some (modelPrice sd)"
    "v = Some (Math_round (modelPrice sd * (if v_good_condition a = Some False then 1 / 2 else 1)))"
    by (simp_all add: condition_multiplier_cases)
  with f show "\<exists>d pc mk mdl sd.
            returned (fetchTradeInData (clock2 env) (catalog2 env)
              (snd (find_catalog_entry env st a))) = Some d
            \<and> phone_category d = Some pc
            \<and> find (\<lambda>m. fuzzy_match (make_name m) (identifiedBrand env st a)) (makes pc) = Some mk
            \<and> find (\<lambda>m. fuzzy_match (model_name m) (identifiedModel env st a)) (models mk) = Some mdl
            \<and> first_device (productFamily mdl) = Some sd
            \<and> md_model dev = model_name mdl \<and> md_capacity dev = capacity sd
            \<and> base = Some (modelPrice sd)
            \<and> v = Some (Math_round
                  (modelPrice sd * (if v_good_condition a = Some False then 1 / 2 else 1)))"
    by blast
next
  fix r dev
  assume "getTradeInValue_of dat args = Inr r \<and> tv_device r = Some dev"
  then have r: "getTradeInValue_of dat args = Inr r" "tv_device r = Some dev" by simp_all
  from gtv_of_success [OF r] obtain d pc mk mdl sd where
    f: "dat = Some d" "phone_category d = Some pc"
      "find (\<lambda>m. toLowerCase (make_name m) = toLowerCase (a_brand args)) (makes pc) = Some mk"
      "find (\<lambda>m. fuzzy_match (model_name m) (a_model args)) (models mk) = Some mdl"
      "spec_selected_variant (or_str (a_capacity args) []) (productFamily mdl) = Some sd"
    and dev: "dev = \<lparr>d_brand = a_brand args, d_model = model_name mdl,
                  d_capacity = capacity sd, d_image = image sd,
                  base_value = modelPrice sd,
                  condition_value = Math_round (modelPrice sd * condition_multiplier (a_good_condition args)),
                  available_capacities = map (\<lambda>pf. (capacity pf, modelPrice pf)) (productFamily mdl)\<rparr>"
    by blast
  from f(5) have "sd \<in> set (productFamily mdl)" by (rule spec_selected_variant_mem)
  moreover from dev have "d_capacity dev = capacity sd" "base_value dev = modelPrice sd"
    "condition_value dev
       = Math_round (modelPrice sd * (if a_good_condition args = Some False then 1 / 2 else 1))"
    by (simp_all add: condition_multiplier_cases)
  ultimately show "\<exists>d pc mk mdl sd. dat = Some d \<and> phone_category d = Some pc
            \<and> find (\<lambda>m. toLowerCase (make_name m) = toLowerCase (a_brand args)) (makes pc) = Some mk
            \<and> find (\<lambda>m. fuzzy_match (model_name m) (a_model args)) (models mk) = Some mdl
            \<and> spec_selected_variant (or_str (a_capacity args) []) (productFamily mdl) = Some sd
            \<and> sd \<in> set (productFamily mdl)
            \<and> d_capacity dev = capacity sd \<and> base_value dev = modelPrice sd
            \<and> condition_value dev
                = Math_round (modelPrice sd * (if a_good_condition args = Some False then 1 / 2 else 1))"
    using f by blast
next
  show "Math_round (800 * 1) = 800" by code_simp
  show "Math_round (800 * (1 / 2)) = 400" by code_simp
qed

theorem disclosed_value_is_rounded_price_witness:
  "fst (get_tradein_value (sample_env gateway_verified) warm_cache (sample_request None))
     = VerifiedValue \<lparr>d_brand = ''Apple'', d_model = ''iPhone 15 Pro Max'', d_capacity = ''256GB'',
         d_image = ''img.png'', base_value = 800, condition_value = 800,
         available_capacities = [(''256GB'', 800), (''512GB'', 905)]\<rparr>
   \<and> Math_round (800 * 1) = 800
   \<and> fst (validate_imei (sample_env gateway_verified) warm_cache (sample_imei_request None (Some False)))
     = ValidImeiReply ''2380452'' (Some NoteVerified)
         (ValueShown \<lparr>md_brand = ''Apple'', md_model = ''iPhone 15 Pro Max'', md_capacity = ''256GB'',
            md_modelCode = ''2380452'',
            md_available_capacities = [(''256GB'', 800, ''2380452''), (''512GB'', 905, ''2380453'')],
            md_image = ''img.png''\<rparr> (Some 800) (Some 400))
   \<and> Math_round (800 * (1 / 2)) = 400
   \<and> fst (get_tradein_value (sample_env gateway_verified) warm_cache
        \<lparr>g_brand = ''Apple'', g_model = ''iPhone 15 Pro Max'', g_imei = ''490154203237518'',
         g_capacity = Some ''512gb'', g_good_condition = Some False\<rparr>)
     = VerifiedValue \<lparr>d_brand = ''Apple'', d_model = ''iPhone 15 Pro Max'', d_capacity = ''512GB'',
         d_image = ''img.png'', base_value = 905, condition_value = 453,
         available_capacities = [(''256GB'', 800), (''512GB'', 905)]\<rparr>
   \<and> Math_round (905 * (1 / 2)) = 453"
proof -
  let ?dev = "\<lparr>d_brand = ''Apple'', d_model = ''iPhone 15 Pro Max'', d_capacity = ''256GB'',
         d_image = ''img.png'', base_value = 800, condition_value = 800,
         available_capacities = [(''256GB'', 800), (''512GB'', 905)]\<rparr>"
  let ?dev3 = "\<lparr>d_brand = ''Apple'', d_model = ''iPhone 15 Pro Max'', d_capacity = ''512GB'',
         d_image = ''img.png'', base_value = 905, condition_value = 453,
         available_capacities = [(''256GB'', 800), (''512GB'', 905)]\<rparr>"
  let ?md = "\<lparr>md_brand = ''Apple'', md_model = ''iPhone 15 Pro Max'', md_capacity = ''256GB'',
            md_modelCode = ''2380452'',
            md_available_capacities = [(''256GB'', 800, ''2380452''), (''512GB'', 905, ''2380453'')],
            md_image = ''img.png''\<rparr>"
  let ?g3 = "\<lparr>g_brand = ''Apple'', g_model = ''iPhone 15 Pro Max'', g_imei = ''490154203237518'',
         g_capacity = Some ''512gb'', g_good_condition = Some False\<rparr>"
  let ?a = "sample_imei_request None (Some False)"
  have e1: "fst (get_tradein_value (sample_env gateway_verified) warm_cache (sample_request None))
     = VerifiedValue ?dev" by code_simp
  have e2: "fst (validate_imei (sample_env gateway_verified) warm_cache ?a)
     = ValidImeiReply ''2380452'' (Some NoteVerified) (ValueShown ?md (Some 800) (Some 400))"
    by code_simp
  have e3: "fst (get_tradein_value (sample_env gateway_verified) warm_cache ?g3) = VerifiedValue ?dev3"
    by code_simp
  from disclosed_value_is_rounded_price [of "sample_env gateway_verified" warm_cache
      "sample_request None", THEN conjunct1, rule_format, OF e1]
  have w1: "Math_round (800 * 1) = 800"
    by (auto simp: sample_request_def)
  from disclosed_value_is_rounded_price [of "sample_env gateway_verified" warm_cache _ ?a,
      THEN conjunct2, THEN conjunct1, rule_format, OF e2]
  have w2: "Math_round (800 * (1 / 2)) = 400"
    by (auto simp: sample_imei_request_def)
  from disclosed_value_is_rounded_price [of "sample_env gateway_verified" warm_cache ?g3,
      THEN conjunct1, rule_format, OF e3]
  have w3: "Math_round (905 * (1 / 2)) = 453"
    by auto
  from e1 e2 e3 w1 w2 w3 show ?thesis by blast
qed

section \<open>The gate\<close>


text \<open>
  C9. The \<open>catch\<close> of the gateway client is reached exactly when the request itself is
  rejected, and then the client returns the failure result with status 0 and no code, which
  the gate treats as unverifiable. Every response, whatever its status and whether or not
  its body is JSON, yields a structured result carrying that status and body. Each tool
  returns a reply on every path: the reply of its body, or the fixed text of its own
  \<open>catch\<close> when the body throws.
\<close>

theorem exceptions_never_escape:
  "((\<exists>e. callHylaGateway_try p reply = Inl e) \<longleftrightarrow> (\<exists>m. reply = Rejects m))
   \<and> callHylaGateway p (Rejects m) =
        \<lparr>success = False, data = None, status = 0, hylaCode = None, hylaMessage = [],
         message = ''Hyla API unreachable: '' @ m\<rparr>
   \<and> gate_outcome (callHylaGateway p (Rejects m)) = Unverifiable
   \<and> (\<forall>hs body. callHylaGateway_try p (Response hs body) = Inr (callHylaGateway p (Response hs body))
          \<and> status (callHylaGateway p (Response hs body)) = hs
          \<and> data (callHylaGateway p (Response hs body)) = body)
   \<and> (\<forall>e st'. get_tradein_value_try env st g = (Inl e, st') \<longrightarrow>
          get_tradein_value env st g = (UnableToFetch, st'))
   \<and> (\<forall>r st'. get_tradein_value_try env st g = (Inr r, st') \<longrightarrow>
          get_tradein_value env st g = (r, st'))
   \<and> (\<forall>e st'. validate_imei_try env st a = (Inl e, st') \<longrightarrow>
          validate_imei env st a = (UnableToValidate, st'))
   \<and> (\<forall>r st'. validate_imei_try env st a = (Inr r, st') \<longrightarrow>
          validate_imei env st a = (r, st'))"
proof (intro conjI allI impI)
  show "(\<exists>e. callHylaGateway_try p reply = Inl e) \<longleftrightarrow> (\<exists>m. reply = Rejects m)"
    by (cases reply) (simp_all add: callHylaGateway_try_def Let_def)
  show "callHylaGateway p (Rejects m) =
        \<lparr>success = False, data = None, status = 0, hylaCode = None, hylaMessage = [],
         message = ''Hyla API unreachable: '' @ m\<rparr>"
    by (rule callHylaGateway_Rejects)
  show "gate_outcome (callHylaGateway p (Rejects m)) = Unverifiable"
    by (simp add: callHylaGateway_Rejects gate_outcome_def)
next
  fix hs body
  show "callHylaGateway_try p (Response hs body) = Inr (callHylaGateway p (Response hs body))"
    by (simp add: callHylaGateway_def callHylaGateway_try_def Let_def)
  show "status (callHylaGateway p (Response hs body)) = hs"
    by (simp add: callHylaGateway_Response)
  show "data (callHylaGateway p (Response hs body)) = body"
    by (simp add: callHylaGateway_Response)
next
  fix e st' assume "get_tradein_value_try env st g = (Inl e, st')"
  then show "get_tradein_value env st g = (UnableToFetch, st')"
    by (simp add: get_tradein_value_def)
next
  fix r st' assume "get_tradein_value_try env st g = (Inr r, st')"
  then show "get_tradein_value env st g = (r, st')"
    by (simp add: get_tradein_value_def)
next
  fix e st' assume "validate_imei_try env st a = (Inl e, st')"
  then show "validate_imei env st a = (UnableToValidate, st')"
    by (simp add: validate_imei_def)
next
  fix r st' assume "validate_imei_try env st a = (Inr r, st')"
  then show "validate_imei env st a = (r, st')"
    by (simp add: validate_imei_def)
qed

theorem exceptions_never_escape_witness:
  "get_tradein_value_try (sample_env gateway_verified)
       \<lparr>tradeInCache = Some sparse_catalog, tradeInCacheTime = 1000\<rparr>
       \<lparr>g_brand = ''Apple'', g_model = ''iPhone 15'', g_imei = ''490154203237518'',
        g_capacity = None, g_good_condition = None\<rparr>
     = (Inl undefined_read, \<lparr>tradeInCache = Some sparse_catalog, tradeInCacheTime = 1000\<rparr>)
   \<and> get_tradein_value (sample_env gateway_verified)
       \<lparr>tradeInCache = Some sparse_catalog, tradeInCacheTime = 1000\<rparr>
       \<lparr>g_brand = ''Apple'', g_model = ''iPhone 15'', g_imei = ''490154203237518'',
        g_capacity = None, g_good_condition = None\<rparr>
     = (UnableToFetch, \<lparr>tradeInCache = Some sparse_catalog, tradeInCacheTime = 1000\<rparr>)
   \<and> get_tradein_value (sample_env (Rejects ''ECONNREFUSED'')) warm_cache (sample_request None)
     = (VerificationUnavailable, warm_cache)
   \<and> fst (validate_imei_try (sample_env (Response 502 None)) warm_cache (sample_imei_request None None))
     = Inr (ValidImeiReply ''2380452'' (Some (NoteOther ''Hyla returned HTTP 502'')) NoSection)"
proof -
  let ?st = "\<lparr>tradeInCache = Some sparse_catalog, tradeInCacheTime = 1000\<rparr>"
  let ?g = "\<lparr>g_brand = ''Apple'', g_model = ''iPhone 15'', g_imei = ''490154203237518'',
        g_capacity = None, g_good_condition = None\<rparr>"
  have e1: "get_tradein_value_try (sample_env gateway_verified) ?st ?g = (Inl undefined_read, ?st)"
    by code_simp
  have e2: "get_tradein_value_try (sample_env (Rejects ''ECONNREFUSED'')) warm_cache (sample_request None)
     = (Inr VerificationUnavailable, warm_cache)" by code_simp
  have e3: "fst (validate_imei_try (sample_env (Response 502 None)) warm_cache (sample_imei_request None None))
     = Inr (ValidImeiReply ''2380452'' (Some (NoteOther ''Hyla returned HTTP 502'')) NoSection)"
    by code_simp
  from exceptions_never_escape [of _ _ _ "sample_env gateway_verified" ?st ?g] e1
  have w1: "get_tradein_value (sample_env gateway_verified) ?st ?g = (UnableToFetch, ?st)" by blast
  from exceptions_never_escape [of _ _ _ "sample_env (Rejects ''ECONNREFUSED'')" warm_cache "sample_request None"] e2
  have w2: "get_tradein_value (sample_env (Rejects ''ECONNREFUSED'')) warm_cache (sample_request None)
     = (VerificationUnavailable, warm_cache)" by blast
  from e1 w1 w2 e3 show ?thesis by blast
qed

text \<open>
  C2. The gate of \<open>get_tradein_value\<close> blocks code 4009, codes from 4010 on, and failures
  that carry no code; every other result falls through to "IMEI VERIFIED". A gateway answer
  with status 400 and the known error code 4002 ("IMEI not found in database") is
  unverifiable as the specification words the mapping, and the gateway client reports it as
  not successful; \<open>get_tradein_value\<close> nevertheless treats it as verified and discloses
  the value 800, while \<open>validate_imei\<close>, which tests \<open>success\<close>, discloses nothing.
\<close>

theorem unknown_code_falls_through_to_verified:
  "spec_outcome gateway_not_found = Unverifiable
   \<and> success (callHylaGateway
        \<lparr>p_modelCode = ''2380452'', p_imei = ''490154203237518'', p_mtn = None, p_responseToken = None\<rparr>
        gateway_not_found) = False
   \<and> gate_outcome (callHylaGateway
        \<lparr>p_modelCode = ''2380452'', p_imei = ''490154203237518'', p_mtn = None, p_responseToken = None\<rparr>
        gateway_not_found) = Verified
   \<and> fst (get_tradein_value (sample_env gateway_not_found) warm_cache (sample_request None))
       = VerifiedValue \<lparr>d_brand = ''Apple'', d_model = ''iPhone 15 Pro Max'', d_capacity = ''256GB'',
           d_image = ''img.png'', base_value = 800, condition_value = 800,
           available_capacities = [(''256GB'', 800), (''512GB'', 905)]\<rparr>
   \<and> fst (validate_imei (sample_env gateway_not_found) warm_cache (sample_imei_request None None))
       = ValidImeiReply ''2380452''
           (Some (NoteDeviceIssue (Some (Num 4002)) ''IMEI not found in database'')) NoSection"
proof -
  let ?p = "\<lparr>p_modelCode = ''2380452'', p_imei = ''490154203237518'', p_mtn = None,
      p_responseToken = None\<rparr>"
  have a: "spec_outcome gateway_not_found = Unverifiable" by code_simp
  have b: "success (callHylaGateway ?p gateway_not_found) = False" by code_simp
  have c: "gate_outcome (callHylaGateway ?p gateway_not_found) = Verified" by code_simp
  have d: "fst (get_tradein_value (sample_env gateway_not_found) warm_cache (sample_request None))
       = VerifiedValue \<lparr>d_brand = ''Apple'', d_model = ''iPhone 15 Pro Max'', d_capacity = ''256GB'',
           d_image = ''img.png'', base_value = 800, condition_value = 800,
           available_capacities = [(''256GB'', 800), (''512GB'', 905)]\<rparr>" by code_simp
  have e: "fst (validate_imei (sample_env gateway_not_found) warm_cache (sample_imei_request None None))
       = ValidImeiReply ''2380452''
           (Some (NoteDeviceIssue (Some (Num 4002)) ''IMEI not found in database'')) NoSection"
    by code_simp
  from a b c d e show ?thesis by blast
qed

theorem unknown_code_falls_through_to_verified_witness:
  "spec_outcome gateway_not_found = Unverifiable
   \<and> disclosed_value (fst (get_tradein_value (sample_env gateway_not_found) warm_cache
        (sample_request None))) = Some 800
   \<and> shown_value (fst (validate_imei (sample_env gateway_not_found) warm_cache
        (sample_imei_request None None))) = None"
  using unknown_code_falls_through_to_verified by simp




end
